theory Spec2Isabelle
  imports Main "HOL-Library.Word"
begin

unbundle bit_operations_syntax

section \<open>Data model of \<^verbatim>\<open>tsk/fs/exaftfs_dent.c\<close>\<close>

text \<open>
  A directory entry (\<^verbatim>\<open>FATFS_DENTRY\<close>) is an array \<^verbatim>\<open>data[32]\<close> of bytes; the type
  specific structs of the source are views of the same 32 bytes.  Inode and sector
  addresses (\<^verbatim>\<open>TSK_INUM_T\<close>, \<^verbatim>\<open>TSK_DADDR_T\<close>) are unsigned 64-bit integers.

  The functions of the source take an entry as a pointer, \<^verbatim>\<open>FATFS_DENTRY *\<close>, and the parser
  passes a pointer into its buffer.  An argument of this type is therefore the memory at
  the pointer: the bytes from the first byte of the entry on.  The first 32 of them are the
  entry; when the entry lies in a directory buffer, the bytes of the entries behind it
  follow, up to the end of the buffer.
\<close>

type_synonym FATFS_DENTRY = "8 word list"
type_synonym TSK_INUM_T = "64 word"
type_synonym TSK_DADDR_T = "64 word"
type_synonym EXFATFS_DIR_ENTRY_TYPE_ENUM = "8 word"

text \<open>
  Modelled from the spec: the enumerators of \<^verbatim>\<open>EXFATFS_DIR_ENTRY_TYPE_ENUM\<close> are declared
  in \<^verbatim>\<open>tsk_exfatfs.h\<close>, which is not among the sources.  The source casts byte 0 of an
  entry to the enumeration, so an enumerator is a byte value; the values are the type codes
  of the exFAT on-disk format, where a deleted variant is the in-use code with the in-use bit
  (\<^verbatim>\<open>0x80\<close>) cleared.
\<close>

definition EXFATFS_DIR_ENTRY_TYPE_NONE :: EXFATFS_DIR_ENTRY_TYPE_ENUM where
  "EXFATFS_DIR_ENTRY_TYPE_NONE = 0xFF"
definition EXFATFS_DIR_ENTRY_TYPE_VOLUME_LABEL :: EXFATFS_DIR_ENTRY_TYPE_ENUM where
  "EXFATFS_DIR_ENTRY_TYPE_VOLUME_LABEL = 0x83"
definition EXFATFS_DIR_ENTRY_TYPE_VOLUME_LABEL_EMPTY :: EXFATFS_DIR_ENTRY_TYPE_ENUM where
  "EXFATFS_DIR_ENTRY_TYPE_VOLUME_LABEL_EMPTY = 0x03"
definition EXFATFS_DIR_ENTRY_TYPE_VOLUME_GUID :: EXFATFS_DIR_ENTRY_TYPE_ENUM where
  "EXFATFS_DIR_ENTRY_TYPE_VOLUME_GUID = 0xA0"
definition EXFATFS_DIR_ENTRY_TYPE_ALLOC_BITMAP :: EXFATFS_DIR_ENTRY_TYPE_ENUM where
  "EXFATFS_DIR_ENTRY_TYPE_ALLOC_BITMAP = 0x81"
definition EXFATFS_DIR_ENTRY_TYPE_UPCASE_TABLE :: EXFATFS_DIR_ENTRY_TYPE_ENUM where
  "EXFATFS_DIR_ENTRY_TYPE_UPCASE_TABLE = 0x82"
definition EXFATFS_DIR_ENTRY_TYPE_TEX_FAT :: EXFATFS_DIR_ENTRY_TYPE_ENUM where
  "EXFATFS_DIR_ENTRY_TYPE_TEX_FAT = 0xA1"
definition EXFATFS_DIR_ENTRY_TYPE_ACT :: EXFATFS_DIR_ENTRY_TYPE_ENUM where
  "EXFATFS_DIR_ENTRY_TYPE_ACT = 0xE2"
definition EXFATFS_DIR_ENTRY_TYPE_FILE :: EXFATFS_DIR_ENTRY_TYPE_ENUM where
  "EXFATFS_DIR_ENTRY_TYPE_FILE = 0x85"
definition EXFATFS_DIR_ENTRY_TYPE_DELETED_FILE :: EXFATFS_DIR_ENTRY_TYPE_ENUM where
  "EXFATFS_DIR_ENTRY_TYPE_DELETED_FILE = 0x05"
definition EXFATFS_DIR_ENTRY_TYPE_FILE_STREAM :: EXFATFS_DIR_ENTRY_TYPE_ENUM where
  "EXFATFS_DIR_ENTRY_TYPE_FILE_STREAM = 0xC0"
definition EXFATFS_DIR_ENTRY_TYPE_DELETED_FILE_STREAM :: EXFATFS_DIR_ENTRY_TYPE_ENUM where
  "EXFATFS_DIR_ENTRY_TYPE_DELETED_FILE_STREAM = 0x40"
definition EXFATFS_DIR_ENTRY_TYPE_FILE_NAME :: EXFATFS_DIR_ENTRY_TYPE_ENUM where
  "EXFATFS_DIR_ENTRY_TYPE_FILE_NAME = 0xC1"
definition EXFATFS_DIR_ENTRY_TYPE_DELETED_FILE_NAME :: EXFATFS_DIR_ENTRY_TYPE_ENUM where
  "EXFATFS_DIR_ENTRY_TYPE_DELETED_FILE_NAME = 0x41"

lemmas dentry_type_defs =
  EXFATFS_DIR_ENTRY_TYPE_NONE_def EXFATFS_DIR_ENTRY_TYPE_VOLUME_LABEL_def
  EXFATFS_DIR_ENTRY_TYPE_VOLUME_LABEL_EMPTY_def EXFATFS_DIR_ENTRY_TYPE_VOLUME_GUID_def
  EXFATFS_DIR_ENTRY_TYPE_ALLOC_BITMAP_def EXFATFS_DIR_ENTRY_TYPE_UPCASE_TABLE_def
  EXFATFS_DIR_ENTRY_TYPE_TEX_FAT_def EXFATFS_DIR_ENTRY_TYPE_ACT_def
  EXFATFS_DIR_ENTRY_TYPE_FILE_def EXFATFS_DIR_ENTRY_TYPE_DELETED_FILE_def
  EXFATFS_DIR_ENTRY_TYPE_FILE_STREAM_def EXFATFS_DIR_ENTRY_TYPE_DELETED_FILE_STREAM_def
  EXFATFS_DIR_ENTRY_TYPE_FILE_NAME_def EXFATFS_DIR_ENTRY_TYPE_DELETED_FILE_NAME_def

datatype TSK_FS_NAME_TYPE_ENUM =
  TSK_FS_NAME_TYPE_UNDEF | TSK_FS_NAME_TYPE_DIR | TSK_FS_NAME_TYPE_REG

datatype TSK_FS_NAME_FLAG_ENUM = TSK_FS_NAME_FLAG_ALLOC | TSK_FS_NAME_FLAG_UNALLOC

text \<open>
  \<^verbatim>\<open>TSK_FS_NAME\<close>: \<open>name\<close> is the character buffer the source writes into (a C string:
  its text ends at the first zero character), \<open>name_size\<close> the allocated size.
\<close>

record TSK_FS_NAME =
  name :: string
  name_size :: nat
  meta_addr :: TSK_INUM_T
  type :: TSK_FS_NAME_TYPE_ENUM
  flags :: TSK_FS_NAME_FLAG_ENUM

text \<open>
  Modelled from the spec: \<^verbatim>\<open>TSK_FS_DIR\<close> and \<^verbatim>\<open>tsk_fs_dir_add\<close> are the directory-listing
  sink, which is not among the sources; it receives one name record per call.  The sink is
  the list of the records handed to it, oldest first; a record carries the text of the name
  (the bytes before the first zero), the inode address, the kind and the allocation flag.
\<close>

record name_record =
  nr_name :: string
  nr_meta_addr :: TSK_INUM_T
  nr_type :: TSK_FS_NAME_TYPE_ENUM
  nr_flags :: TSK_FS_NAME_FLAG_ENUM

type_synonym TSK_FS_DIR = "name_record list"

definition c_str :: "string \<Rightarrow> string" where
  "c_str buf = takeWhile (\<lambda>b. b \<noteq> CHR 0x00) buf"

definition strlen :: "string \<Rightarrow> nat" where
  "strlen buf = length (c_str buf)"

definition tsk_fs_dir_add :: "TSK_FS_DIR \<Rightarrow> TSK_FS_NAME \<Rightarrow> TSK_FS_DIR" where
  "tsk_fs_dir_add a_fs_dir a_fs_name =
     a_fs_dir @ [\<lparr>nr_name = c_str (name a_fs_name), nr_meta_addr = meta_addr a_fs_name,
                  nr_type = type a_fs_name, nr_flags = flags a_fs_name\<rparr>]"

text \<open>
  \<^verbatim>\<open>EXFATFS_FS_NAME_INFO\<close>, the accumulator.  The \<^verbatim>\<open>fatfs\<close> pointer of the struct is never
  written after initialisation; the functions below take the file system as an argument
  where they read it.  \<open>sector_is_allocated\<close> is an \<^verbatim>\<open>int8_t\<close> read as a truth value.
\<close>

record EXFATFS_FS_NAME_INFO =
  sector_is_allocated :: int
  last_dentry_type :: EXFATFS_DIR_ENTRY_TYPE_ENUM
  expected_secondary_entry_count :: "8 word"
  actual_secondary_entry_count :: "8 word"
  expected_check_sum :: "16 word"
  actual_check_sum :: "16 word"
  expected_name_length :: "8 word"
  actual_name_length :: "8 word"
  fs_name :: TSK_FS_NAME
  fs_dir :: TSK_FS_DIR

section \<open>The entry set check sum\<close>

text \<open>
  One iteration of the loop body's assignment.  \<^verbatim>\<open>actual_check_sum\<close> and
  \<^verbatim>\<open>byte_to_add\<close> are \<^verbatim>\<open>uint16_t\<close>; C promotes them to \<^verbatim>\<open>int\<close> (32 bits, two's
  complement), computes there and truncates the sum to 16 bits on assignment.  The sum can
  pass the largest \<^verbatim>\<open>int\<close>; it is taken to wrap around, as the compilers in use do.
\<close>

definition checksum_assign :: "16 word \<Rightarrow> 16 word \<Rightarrow> 16 word" where
  "checksum_assign cs byte_to_add =
     ucast (((push_bit 15 (ucast cs :: 32 word)) OR (drop_bit 1 (ucast cs :: 32 word)))
            + (ucast byte_to_add :: 32 word))"

definition checksum_byte_to_add :: "EXFATFS_DIR_ENTRY_TYPE_ENUM \<Rightarrow> FATFS_DENTRY \<Rightarrow> nat \<Rightarrow> 16 word" where
  "checksum_byte_to_add dentry_type a_dentry index =
     (if index = 0 then
        (if dentry_type = EXFATFS_DIR_ENTRY_TYPE_DELETED_FILE
           then ucast EXFATFS_DIR_ENTRY_TYPE_FILE
         else if dentry_type = EXFATFS_DIR_ENTRY_TYPE_DELETED_FILE_STREAM
           then ucast EXFATFS_DIR_ENTRY_TYPE_FILE_STREAM
         else if dentry_type = EXFATFS_DIR_ENTRY_TYPE_DELETED_FILE_NAME
           then ucast EXFATFS_DIR_ENTRY_TYPE_FILE_NAME
         else ucast dentry_type)
      else ucast (a_dentry ! index))"

text \<open>The \<^verbatim>\<open>for\<close> loop over \<^verbatim>\<open>index < sizeof(a_dentry->data)\<close>, that is 32.\<close>

function checksum_loop ::
  "EXFATFS_DIR_ENTRY_TYPE_ENUM \<Rightarrow> FATFS_DENTRY \<Rightarrow> nat \<Rightarrow> 16 word \<Rightarrow> 16 word" where
  "checksum_loop dentry_type a_dentry index cs =
     (if index < 32 then
        (if (dentry_type = EXFATFS_DIR_ENTRY_TYPE_FILE \<or>
             dentry_type = EXFATFS_DIR_ENTRY_TYPE_DELETED_FILE) \<and>
            (index = 2 \<or> index = 3)
         then checksum_loop dentry_type a_dentry (index + 1) cs
         else checksum_loop dentry_type a_dentry (index + 1)
                (checksum_assign cs (checksum_byte_to_add dentry_type a_dentry index)))
      else cs)"
  by pat_completeness auto
termination
  by (relation "measure (\<lambda>(t, d, index, cs). 32 - index)") auto

declare checksum_loop.simps [simp del]

definition exfatfs_update_file_entry_set_checksum ::
  "EXFATFS_FS_NAME_INFO \<Rightarrow> FATFS_DENTRY \<Rightarrow> EXFATFS_FS_NAME_INFO" where
  "exfatfs_update_file_entry_set_checksum a_name_info a_dentry =
     a_name_info\<lparr>actual_check_sum :=
       checksum_loop (a_dentry ! 0) a_dentry 0 (actual_check_sum a_name_info)\<rparr>"

text \<open>The assertion of the function: the entry is one of the six entry set types.\<close>

definition update_checksum_asserts :: "FATFS_DENTRY \<Rightarrow> bool" where
  "update_checksum_asserts a_dentry \<longleftrightarrow>
     a_dentry ! 0 = EXFATFS_DIR_ENTRY_TYPE_FILE \<or>
     a_dentry ! 0 = EXFATFS_DIR_ENTRY_TYPE_DELETED_FILE \<or>
     a_dentry ! 0 = EXFATFS_DIR_ENTRY_TYPE_FILE_STREAM \<or>
     a_dentry ! 0 = EXFATFS_DIR_ENTRY_TYPE_DELETED_FILE_STREAM \<or>
     a_dentry ! 0 = EXFATFS_DIR_ENTRY_TYPE_FILE_NAME \<or>
     a_dentry ! 0 = EXFATFS_DIR_ENTRY_TYPE_DELETED_FILE_NAME"

text \<open>
  The check sum as the specification words it: every byte position of the entry, in order,
  is folded by a rotation to the right by one bit followed by an addition modulo \<open>2^16\<close>;
  positions 2 and 3 of a file or deleted file entry are left out; at position 0 a deleted
  tag is replaced by its in-use tag.
\<close>

definition spec_in_use_tag :: "EXFATFS_DIR_ENTRY_TYPE_ENUM \<Rightarrow> EXFATFS_DIR_ENTRY_TYPE_ENUM" where
  "spec_in_use_tag t =
     (if t = EXFATFS_DIR_ENTRY_TYPE_DELETED_FILE then EXFATFS_DIR_ENTRY_TYPE_FILE
      else if t = EXFATFS_DIR_ENTRY_TYPE_DELETED_FILE_STREAM then EXFATFS_DIR_ENTRY_TYPE_FILE_STREAM
      else if t = EXFATFS_DIR_ENTRY_TYPE_DELETED_FILE_NAME then EXFATFS_DIR_ENTRY_TYPE_FILE_NAME
      else t)"

definition spec_fold_byte :: "16 word \<Rightarrow> 8 word \<Rightarrow> 16 word" where
  "spec_fold_byte cs b = word_rotr 1 cs + ucast b"

definition spec_folded_positions :: "FATFS_DENTRY \<Rightarrow> nat list" where
  "spec_folded_positions a_dentry =
     filter (\<lambda>i. \<not> ((a_dentry ! 0 = EXFATFS_DIR_ENTRY_TYPE_FILE \<or>
                      a_dentry ! 0 = EXFATFS_DIR_ENTRY_TYPE_DELETED_FILE) \<and> (i = 2 \<or> i = 3)))
            [0..<32]"

definition spec_folded_byte :: "FATFS_DENTRY \<Rightarrow> nat \<Rightarrow> 8 word" where
  "spec_folded_byte a_dentry i = (if i = 0 then spec_in_use_tag (a_dentry ! 0) else a_dentry ! i)"

definition spec_checksum :: "16 word \<Rightarrow> FATFS_DENTRY \<Rightarrow> 16 word" where
  "spec_checksum cs a_dentry =
     foldl spec_fold_byte cs (map (spec_folded_byte a_dentry) (spec_folded_positions a_dentry))"


section \<open>Collaborators\<close>

datatype TSK_ENDIAN_ENUM = TSK_LIT_ENDIAN | TSK_BIG_ENDIAN

datatype TSKConversionResult =
  TSKconversionOK | TSKsourceExhausted | TSKtargetExhausted | TSKsourceIllegal

text \<open>
  \<^verbatim>\<open>FATFS_INFO\<close>: the fields of the file system this file reads (\<open>ssize\<close>,
  \<open>dentry_cnt_se\<close>, the inode range and the byte order of \<^verbatim>\<open>fs_info\<close>), and the
  functions and macros of other files that the source calls with the file system as their
  first argument.  None of them is among the sources, so each is a parameter:
  \<^item> \<open>FATFS_SECT_2_INODE\<close>, the inode address of the first entry of a sector;
  \<^item> \<open>fatfs_is_inum_in_range\<close>, the inode range test;
  \<^item> \<open>fatfs_is_sectalloc\<close>, the sector allocation oracle (1, 0, or -1 on a failed lookup);
  \<^item> \<open>exfatfs_is_dentry\<close>, the entry classifier, given the entry and the
    assume-allocated hint;
  \<^item> \<open>fatfs_utf16_inode_str_2_utf8\<close>, the decoder: given the source bytes, the number of
    UTF-16 code units to convert, the destination buffer, its size and the inode address,
    it returns the conversion result and the destination buffer as it left it;
  \<^item> \<open>tsk_fs_name_alloc\<close>, the allocation of the name object (\<open>None\<close> for \<^verbatim>\<open>NULL\<close>);
  \<^item> \<open>EXFATFS_MAX_NAME_LEN_UTF8\<close>, the capacity macro of \<^verbatim>\<open>tsk_exfatfs.h\<close>.
\<close>

record FATFS_INFO =
  ssize :: nat
  dentry_cnt_se :: nat
  first_inum :: TSK_INUM_T
  last_inum :: TSK_INUM_T
  endian :: TSK_ENDIAN_ENUM
  FATFS_SECT_2_INODE :: "TSK_DADDR_T \<Rightarrow> TSK_INUM_T"
  fatfs_is_inum_in_range :: "TSK_INUM_T \<Rightarrow> bool"
  fatfs_is_sectalloc :: "TSK_DADDR_T \<Rightarrow> int"
  exfatfs_is_dentry :: "FATFS_DENTRY \<Rightarrow> bool \<Rightarrow> EXFATFS_DIR_ENTRY_TYPE_ENUM"
  fatfs_utf16_inode_str_2_utf8 ::
    "8 word list \<Rightarrow> nat \<Rightarrow> string \<Rightarrow> nat \<Rightarrow> TSK_INUM_T \<Rightarrow> TSKConversionResult \<times> string"
  tsk_fs_name_alloc :: "nat \<Rightarrow> TSK_FS_NAME option"
  EXFATFS_MAX_NAME_LEN_UTF8 :: nat

text \<open>
  Modelled from the spec: \<^verbatim>\<open>tsk_getu16\<close> and the struct declarations of
  \<^verbatim>\<open>tsk_exfatfs.h\<close> are not among the sources.  The fields are read at the offsets of the
  exFAT on-disk layout the specification refers to: the type tag at byte 0; in a file entry
  the secondary count at byte 1, the check sum at bytes 2 and 3 and the attributes from byte
  4; in a stream entry the name length at byte 3; in a name entry 15 UTF-16 code units from
  byte 2; in a volume label entry the character count at byte 1 and the label from byte 2.

  \<open>utf16_name_chars\<close> and \<open>volume_label\<close> are the array members the source casts to
  \<^verbatim>\<open>UTF16*\<close> and hands to the decoder: pointers to byte 2 of the entry, that is the memory
  from that byte on, which does not end with the entry.
\<close>

definition tsk_getu16 :: "TSK_ENDIAN_ENUM \<Rightarrow> 8 word \<Rightarrow> 8 word \<Rightarrow> 16 word" where
  "tsk_getu16 e b0 b1 =
     (case e of
        TSK_LIT_ENDIAN \<Rightarrow> ucast b0 OR push_bit 8 (ucast b1)
      | TSK_BIG_ENDIAN \<Rightarrow> ucast b1 OR push_bit 8 (ucast b0))"

definition entry_type :: "FATFS_DENTRY \<Rightarrow> 8 word" where
  "entry_type d = d ! 0"
definition secondary_entries_count :: "FATFS_DENTRY \<Rightarrow> 8 word" where
  "secondary_entries_count d = d ! 1"
definition check_sum :: "TSK_ENDIAN_ENUM \<Rightarrow> FATFS_DENTRY \<Rightarrow> 16 word" where
  "check_sum e d = tsk_getu16 e (d ! 2) (d ! 3)"
definition attrs0 :: "FATFS_DENTRY \<Rightarrow> 8 word" where
  "attrs0 d = d ! 4"
definition file_name_length :: "FATFS_DENTRY \<Rightarrow> 8 word" where
  "file_name_length d = d ! 3"
definition utf16_name_chars :: "FATFS_DENTRY \<Rightarrow> 8 word list" where
  "utf16_name_chars d = drop 2 d"
definition utf16_char_count :: "FATFS_DENTRY \<Rightarrow> 8 word" where
  "utf16_char_count d = d ! 1"
definition volume_label :: "FATFS_DENTRY \<Rightarrow> 8 word list" where
  "volume_label d = drop 2 d"

text \<open>
  Modelled from the spec: the macros \<^verbatim>\<open>FATFS_ATTR_DIRECTORY\<close> (the directory bit of the
  attributes), \<^verbatim>\<open>EXFATFS_MAX_FILE_NAME_SEGMENT_LENGTH\<close> (the fixed number of UTF-16 code
  units a name entry carries) and the virtual file names (one constant string per special
  entry type) are declared in headers that are not among the sources.
\<close>

definition FATFS_ATTR_DIRECTORY :: "8 word" where
  "FATFS_ATTR_DIRECTORY = 0x10"

definition EXFATFS_MAX_FILE_NAME_SEGMENT_LENGTH :: "64 word" where
  "EXFATFS_MAX_FILE_NAME_SEGMENT_LENGTH = 15"

definition EXFATFS_VOLUME_GUID_VIRT_FILENAME :: string where
  "EXFATFS_VOLUME_GUID_VIRT_FILENAME = ''$VOLUME_GUID''"
definition EXFATFS_ALLOC_BITMAP_VIRT_FILENAME :: string where
  "EXFATFS_ALLOC_BITMAP_VIRT_FILENAME = ''$ALLOC_BITMAP''"
definition EXFATFS_UPCASE_TABLE_VIRT_FILENAME :: string where
  "EXFATFS_UPCASE_TABLE_VIRT_FILENAME = ''$UPCASE_TABLE''"
definition EXFATFS_TEX_FAT_VIRT_FILENAME :: string where
  "EXFATFS_TEX_FAT_VIRT_FILENAME = ''$TEX_FAT''"
definition EXFATFS_ACT_VIRT_FILENAME :: string where
  "EXFATFS_ACT_VIRT_FILENAME = ''$ACCESS_CONTROL_TABLE''"

text \<open>
  The C library calls on the name buffer.  The buffer is the list of its characters; a
  write beyond its end, undefined in C, lengthens the list.
\<close>

definition strcpy :: "string \<Rightarrow> string \<Rightarrow> string" where
  "strcpy dest src = src @ [CHR 0x00] @ drop (length src + 1) dest"

definition strcat :: "string \<Rightarrow> string \<Rightarrow> string" where
  "strcat dest src =
     take (strlen dest) dest @ src @ [CHR 0x00] @ drop (strlen dest + length src + 1) dest"

section \<open>Reset and finalize\<close>

definition exfatfs_reset_name_info :: "EXFATFS_FS_NAME_INFO \<Rightarrow> EXFATFS_FS_NAME_INFO" where
  "exfatfs_reset_name_info a_name_info =
     a_name_info
       \<lparr>last_dentry_type := EXFATFS_DIR_ENTRY_TYPE_NONE,
        expected_secondary_entry_count := 0,
        actual_secondary_entry_count := 0,
        expected_check_sum := 0,
        actual_check_sum := 0,
        expected_name_length := 0,
        actual_name_length := 0,
        fs_name := (fs_name a_name_info)
          \<lparr>name := (name (fs_name a_name_info))[0 := CHR 0x00],
           meta_addr := 0,
           type := TSK_FS_NAME_TYPE_UNDEF,
           flags := TSK_FS_NAME_FLAG_ALLOC\<rparr>\<rparr>"

definition exfatfs_add_name_to_dir_and_reset_info ::
  "EXFATFS_FS_NAME_INFO \<Rightarrow> EXFATFS_FS_NAME_INFO" where
  "exfatfs_add_name_to_dir_and_reset_info a_name_info =
     exfatfs_reset_name_info
       (if strlen (name (fs_name a_name_info)) > 0
        then a_name_info\<lparr>fs_dir := tsk_fs_dir_add (fs_dir a_name_info) (fs_name a_name_info)\<rparr>
        else a_name_info)"

text \<open>
  The assertions the two functions (and every handler below) share: the name buffer exists
  and has the size the object was allocated with.
\<close>

definition name_info_asserts :: "FATFS_INFO \<Rightarrow> EXFATFS_FS_NAME_INFO \<Rightarrow> bool" where
  "name_info_asserts a_fatfs a_name_info \<longleftrightarrow>
     name_size (fs_name a_name_info) = EXFATFS_MAX_NAME_LEN_UTF8 a_fatfs"

section \<open>The entry handlers\<close>

definition exfats_parse_file_dentry ::
  "FATFS_INFO \<Rightarrow> EXFATFS_FS_NAME_INFO \<Rightarrow> FATFS_DENTRY \<Rightarrow> TSK_INUM_T \<Rightarrow> EXFATFS_FS_NAME_INFO" where
  "exfats_parse_file_dentry a_fatfs a_name_info a_dentry a_inum =
     (let ni = exfatfs_add_name_to_dir_and_reset_info a_name_info;
          ni = ni\<lparr>last_dentry_type := entry_type a_dentry\<rparr>;
          ni = ni\<lparr>expected_secondary_entry_count := secondary_entries_count a_dentry\<rparr>;
          ni = ni\<lparr>expected_check_sum := check_sum (endian a_fatfs) a_dentry\<rparr>;
          ni = (if attrs0 a_dentry AND FATFS_ATTR_DIRECTORY \<noteq> 0
                then ni\<lparr>fs_name := (fs_name ni)\<lparr>type := TSK_FS_NAME_TYPE_DIR\<rparr>\<rparr>
                else ni\<lparr>fs_name := (fs_name ni)\<lparr>type := TSK_FS_NAME_TYPE_REG\<rparr>\<rparr>);
          ni = (if sector_is_allocated ni \<noteq> 0 \<and>
                   entry_type a_dentry = EXFATFS_DIR_ENTRY_TYPE_FILE
                then ni\<lparr>fs_name := (fs_name ni)\<lparr>flags := TSK_FS_NAME_FLAG_ALLOC\<rparr>\<rparr>
                else ni\<lparr>fs_name := (fs_name ni)\<lparr>flags := TSK_FS_NAME_FLAG_UNALLOC\<rparr>\<rparr>);
          ni = ni\<lparr>fs_name := (fs_name ni)\<lparr>meta_addr := a_inum\<rparr>\<rparr>
      in exfatfs_update_file_entry_set_checksum ni a_dentry)"

definition parse_file_dentry_asserts ::
  "FATFS_INFO \<Rightarrow> EXFATFS_FS_NAME_INFO \<Rightarrow> FATFS_DENTRY \<Rightarrow> TSK_INUM_T \<Rightarrow> bool" where
  "parse_file_dentry_asserts a_fatfs a_name_info a_dentry a_inum \<longleftrightarrow>
     name_info_asserts a_fatfs a_name_info \<and>
     (entry_type a_dentry = EXFATFS_DIR_ENTRY_TYPE_FILE \<or>
      entry_type a_dentry = EXFATFS_DIR_ENTRY_TYPE_DELETED_FILE) \<and>
     fatfs_is_inum_in_range a_fatfs a_inum"

definition exfats_parse_file_stream_dentry ::
  "FATFS_INFO \<Rightarrow> EXFATFS_FS_NAME_INFO \<Rightarrow> FATFS_DENTRY \<Rightarrow> TSK_INUM_T \<Rightarrow> EXFATFS_FS_NAME_INFO" where
  "exfats_parse_file_stream_dentry a_fatfs a_name_info a_dentry a_inum =
     (if last_dentry_type a_name_info \<noteq> EXFATFS_DIR_ENTRY_TYPE_FILE \<and>
         last_dentry_type a_name_info \<noteq> EXFATFS_DIR_ENTRY_TYPE_DELETED_FILE
      then exfatfs_add_name_to_dir_and_reset_info a_name_info
      else if (last_dentry_type a_name_info = EXFATFS_DIR_ENTRY_TYPE_FILE \<and>
               entry_type a_dentry = EXFATFS_DIR_ENTRY_TYPE_DELETED_FILE_STREAM) \<or>
              (last_dentry_type a_name_info = EXFATFS_DIR_ENTRY_TYPE_DELETED_FILE \<and>
               entry_type a_dentry = EXFATFS_DIR_ENTRY_TYPE_FILE_STREAM)
      then exfatfs_add_name_to_dir_and_reset_info a_name_info
      else
        (let ni = a_name_info\<lparr>last_dentry_type := entry_type a_dentry\<rparr>;
             ni = ni\<lparr>expected_name_length := file_name_length a_dentry\<rparr>;
             ni = exfatfs_update_file_entry_set_checksum ni a_dentry;
             ni = ni\<lparr>actual_secondary_entry_count := actual_secondary_entry_count ni + 1\<rparr>
         in if actual_secondary_entry_count ni = expected_secondary_entry_count ni
            then exfatfs_add_name_to_dir_and_reset_info ni
            else ni))"

definition parse_file_stream_dentry_asserts ::
  "FATFS_INFO \<Rightarrow> EXFATFS_FS_NAME_INFO \<Rightarrow> FATFS_DENTRY \<Rightarrow> TSK_INUM_T \<Rightarrow> bool" where
  "parse_file_stream_dentry_asserts a_fatfs a_name_info a_dentry a_inum \<longleftrightarrow>
     name_info_asserts a_fatfs a_name_info \<and>
     (entry_type a_dentry = EXFATFS_DIR_ENTRY_TYPE_FILE_STREAM \<or>
      entry_type a_dentry = EXFATFS_DIR_ENTRY_TYPE_DELETED_FILE_STREAM) \<and>
     fatfs_is_inum_in_range a_fatfs a_inum"

text \<open>
  In the name handler \<^verbatim>\<open>num_chars_to_copy\<close> is a \<^verbatim>\<open>size_t\<close> (64 bits): the difference
  of the two \<^verbatim>\<open>uint8_t\<close> lengths is converted to it, and the comparisons are unsigned.
  \<open>name_num_chars_to_copy\<close> is the value of the variable after the clipping to the segment
  length, \<open>name_segment_fits\<close> the test that guards the conversion.
\<close>

definition name_num_chars_to_copy :: "EXFATFS_FS_NAME_INFO \<Rightarrow> 64 word" where
  "name_num_chars_to_copy a_name_info =
     (let num_chars_to_copy =
            (ucast (expected_name_length a_name_info) - ucast (actual_name_length a_name_info)
               :: 64 word)
      in if num_chars_to_copy > EXFATFS_MAX_FILE_NAME_SEGMENT_LENGTH
         then EXFATFS_MAX_FILE_NAME_SEGMENT_LENGTH else num_chars_to_copy)"

definition name_segment_fits :: "EXFATFS_FS_NAME_INFO \<Rightarrow> bool" where
  "name_segment_fits a_name_info \<longleftrightarrow>
     (ucast (actual_name_length a_name_info) + name_num_chars_to_copy a_name_info :: 64 word)
       < of_nat (name_size (fs_name a_name_info)) - 1"

definition exfats_parse_file_name_dentry ::
  "FATFS_INFO \<Rightarrow> EXFATFS_FS_NAME_INFO \<Rightarrow> FATFS_DENTRY \<Rightarrow> TSK_INUM_T \<Rightarrow> EXFATFS_FS_NAME_INFO" where
  "exfats_parse_file_name_dentry a_fatfs a_name_info a_dentry a_inum =
     (if last_dentry_type a_name_info \<noteq> EXFATFS_DIR_ENTRY_TYPE_FILE_STREAM \<and>
         last_dentry_type a_name_info \<noteq> EXFATFS_DIR_ENTRY_TYPE_DELETED_FILE_STREAM \<and>
         last_dentry_type a_name_info \<noteq> EXFATFS_DIR_ENTRY_TYPE_FILE_NAME \<and>
         last_dentry_type a_name_info \<noteq> EXFATFS_DIR_ENTRY_TYPE_DELETED_FILE_NAME
      then exfatfs_add_name_to_dir_and_reset_info a_name_info
      else if ((last_dentry_type a_name_info = EXFATFS_DIR_ENTRY_TYPE_FILE_STREAM \<or>
                last_dentry_type a_name_info = EXFATFS_DIR_ENTRY_TYPE_FILE_NAME) \<and>
               entry_type a_dentry = EXFATFS_DIR_ENTRY_TYPE_DELETED_FILE_NAME) \<or>
              ((last_dentry_type a_name_info = EXFATFS_DIR_ENTRY_TYPE_DELETED_FILE_STREAM \<or>
                last_dentry_type a_name_info = EXFATFS_DIR_ENTRY_TYPE_DELETED_FILE_NAME) \<and>
               entry_type a_dentry = EXFATFS_DIR_ENTRY_TYPE_FILE_NAME)
      then exfatfs_add_name_to_dir_and_reset_info a_name_info
      else
        (let ni = a_name_info\<lparr>last_dentry_type := entry_type a_dentry\<rparr>;
             num_chars_to_copy = name_num_chars_to_copy ni
         in if name_segment_fits ni
            then
              (case fatfs_utf16_inode_str_2_utf8 a_fatfs (utf16_name_chars a_dentry)
                      (unat num_chars_to_copy) (name (fs_name ni)) (name_size (fs_name ni)) a_inum of
                 (res, buf) \<Rightarrow>
                   if res \<noteq> TSKconversionOK
                   then exfatfs_add_name_to_dir_and_reset_info
                          (ni\<lparr>fs_name := (fs_name ni)
                                \<lparr>name := buf[unat (actual_name_length ni) := CHR 0x00]\<rparr>\<rparr>)
                   else
                     (let ni = ni\<lparr>actual_name_length :=
                                     actual_name_length ni + ucast num_chars_to_copy\<rparr>;
                          ni = ni\<lparr>fs_name := (fs_name ni)
                                     \<lparr>name := buf[unat (actual_name_length ni) := CHR 0x00]\<rparr>\<rparr>;
                          ni = ni\<lparr>actual_secondary_entry_count :=
                                     actual_secondary_entry_count ni + 1\<rparr>
                      in if actual_secondary_entry_count ni = expected_secondary_entry_count ni
                         then exfatfs_add_name_to_dir_and_reset_info ni
                         else ni))
            else
              (let ni = ni\<lparr>actual_secondary_entry_count := actual_secondary_entry_count ni + 1\<rparr>
               in if actual_secondary_entry_count ni = expected_secondary_entry_count ni
                  then exfatfs_add_name_to_dir_and_reset_info ni
                  else ni)))"

definition parse_file_name_dentry_asserts ::
  "FATFS_INFO \<Rightarrow> EXFATFS_FS_NAME_INFO \<Rightarrow> FATFS_DENTRY \<Rightarrow> TSK_INUM_T \<Rightarrow> bool" where
  "parse_file_name_dentry_asserts a_fatfs a_name_info a_dentry a_inum \<longleftrightarrow>
     name_info_asserts a_fatfs a_name_info \<and>
     (entry_type a_dentry = EXFATFS_DIR_ENTRY_TYPE_FILE_NAME \<or>
      entry_type a_dentry = EXFATFS_DIR_ENTRY_TYPE_DELETED_FILE_NAME) \<and>
     fatfs_is_inum_in_range a_fatfs a_inum"

text \<open>
  The volume label handler.  Its \<open>a_dentry\<close> is the pointer the parser passes, the
  memory from the first byte of the entry on, and \<^verbatim>\<open>dentry->volume_label\<close> points to
  byte 2 of it: the decoder is given the label and what lies behind it in the buffer, and
  is asked for \<^verbatim>\<open>(size_t)dentry->utf16_char_count + 1\<close> code units.
\<close>

definition vol_label_tag :: string where
  "vol_label_tag = '' (Volume Label Entry)''"

definition exfats_parse_vol_label_dentry ::
  "FATFS_INFO \<Rightarrow> EXFATFS_FS_NAME_INFO \<Rightarrow> FATFS_DENTRY \<Rightarrow> TSK_INUM_T \<Rightarrow> EXFATFS_FS_NAME_INFO" where
  "exfats_parse_vol_label_dentry a_fatfs a_name_info a_dentry a_inum =
     (let ni = exfatfs_add_name_to_dir_and_reset_info a_name_info;
          ni = ni\<lparr>last_dentry_type := entry_type a_dentry\<rparr>
      in if entry_type a_dentry \<noteq> EXFATFS_DIR_ENTRY_TYPE_VOLUME_LABEL_EMPTY
         then
           (case fatfs_utf16_inode_str_2_utf8 a_fatfs (volume_label a_dentry)
                   (unat (utf16_char_count a_dentry) + 1) (name (fs_name ni))
                   (name_size (fs_name ni)) a_inum of
              (res, buf) \<Rightarrow>
                if res \<noteq> TSKconversionOK
                then exfatfs_reset_name_info (ni\<lparr>fs_name := (fs_name ni)\<lparr>name := buf\<rparr>\<rparr>)
                else
                  (let ni = ni\<lparr>actual_name_length :=
                                  actual_name_length ni + utf16_char_count a_dentry\<rparr>;
                       ni = ni\<lparr>fs_name := (fs_name ni)
                                  \<lparr>name := buf[unat (actual_name_length ni) := CHR 0x00]\<rparr>\<rparr>;
                       tag_length = length vol_label_tag;
                       ni = (if unat (actual_name_length ni) + tag_length
                                  < EXFATFS_MAX_NAME_LEN_UTF8 a_fatfs
                             then ni\<lparr>fs_name := (fs_name ni)
                                       \<lparr>name := strcat (name (fs_name ni)) vol_label_tag\<rparr>\<rparr>
                             else ni);
                       ni = ni\<lparr>fs_name := (fs_name ni)\<lparr>meta_addr := a_inum\<rparr>\<rparr>
                   in exfatfs_add_name_to_dir_and_reset_info ni))
         else ni)"

definition parse_vol_label_dentry_asserts ::
  "FATFS_INFO \<Rightarrow> EXFATFS_FS_NAME_INFO \<Rightarrow> FATFS_DENTRY \<Rightarrow> TSK_INUM_T \<Rightarrow> bool" where
  "parse_vol_label_dentry_asserts a_fatfs a_name_info a_dentry a_inum \<longleftrightarrow>
     name_info_asserts a_fatfs a_name_info \<and>
     (entry_type a_dentry = EXFATFS_DIR_ENTRY_TYPE_VOLUME_LABEL \<or>
      entry_type a_dentry = EXFATFS_DIR_ENTRY_TYPE_VOLUME_LABEL_EMPTY) \<and>
     fatfs_is_inum_in_range a_fatfs a_inum"

text \<open>
  The volume label handler asks the decoder for \<^verbatim>\<open>utf16_char_count + 1\<close> code units of two
  bytes each, from the label on, whatever the count is (the name handler clips its request
  to the 15 code units of an entry).  The label field starts at byte 2 of the 32 bytes of
  the entry, so a count of 15 or more makes the request run over the end of the entry,
  into the entries behind it.  Where the memory at the pointer ends before the last code
  unit asked for, the request runs over the end of the buffer: the call reads what it was
  not given and has no defined behaviour.  \<open>vol_label_source_in_buffer\<close> tells that
  the handler's request, if it makes one, stays within the memory at the pointer.
\<close>

definition vol_label_source_in_buffer :: "FATFS_DENTRY \<Rightarrow> bool" where
  "vol_label_source_in_buffer a_dentry \<longleftrightarrow>
     entry_type a_dentry = EXFATFS_DIR_ENTRY_TYPE_VOLUME_LABEL_EMPTY \<or>
     2 * (unat (utf16_char_count a_dentry) + 1) \<le> length (volume_label a_dentry)"

definition exfats_parse_special_file_dentry ::
  "FATFS_INFO \<Rightarrow> EXFATFS_FS_NAME_INFO \<Rightarrow> FATFS_DENTRY \<Rightarrow> TSK_INUM_T \<Rightarrow> EXFATFS_FS_NAME_INFO" where
  "exfats_parse_special_file_dentry a_fatfs a_name_info a_dentry a_inum =
     (let ni = exfatfs_add_name_to_dir_and_reset_info a_name_info;
          ni = ni\<lparr>fs_name := (fs_name ni)\<lparr>meta_addr := a_inum\<rparr>\<rparr>;
          ni = ni\<lparr>last_dentry_type := a_dentry ! 0\<rparr>;
          virt =
            (if a_dentry ! 0 = EXFATFS_DIR_ENTRY_TYPE_VOLUME_GUID
               then Some EXFATFS_VOLUME_GUID_VIRT_FILENAME
             else if a_dentry ! 0 = EXFATFS_DIR_ENTRY_TYPE_ALLOC_BITMAP
               then Some EXFATFS_ALLOC_BITMAP_VIRT_FILENAME
             else if a_dentry ! 0 = EXFATFS_DIR_ENTRY_TYPE_UPCASE_TABLE
               then Some EXFATFS_UPCASE_TABLE_VIRT_FILENAME
             else if a_dentry ! 0 = EXFATFS_DIR_ENTRY_TYPE_TEX_FAT
               then Some EXFATFS_TEX_FAT_VIRT_FILENAME
             else if a_dentry ! 0 = EXFATFS_DIR_ENTRY_TYPE_ACT
               then Some EXFATFS_ACT_VIRT_FILENAME
             else None);
          ni = (case virt of
                  Some s \<Rightarrow> ni\<lparr>fs_name := (fs_name ni)\<lparr>name := strcpy (name (fs_name ni)) s\<rparr>\<rparr>
                | None \<Rightarrow> ni)
      in exfatfs_add_name_to_dir_and_reset_info ni)"

text \<open>
  The assertions of the special file handler.  Its entry type assertion names four types;
  the \<^verbatim>\<open>switch\<close> in its body has a fifth case, for \<^verbatim>\<open>EXFATFS_DIR_ENTRY_TYPE_TEX_FAT\<close>.
\<close>

definition parse_special_file_dentry_asserts ::
  "FATFS_INFO \<Rightarrow> EXFATFS_FS_NAME_INFO \<Rightarrow> FATFS_DENTRY \<Rightarrow> TSK_INUM_T \<Rightarrow> bool" where
  "parse_special_file_dentry_asserts a_fatfs a_name_info a_dentry a_inum \<longleftrightarrow>
     name_info_asserts a_fatfs a_name_info \<and>
     (a_dentry ! 0 = EXFATFS_DIR_ENTRY_TYPE_VOLUME_GUID \<or>
      a_dentry ! 0 = EXFATFS_DIR_ENTRY_TYPE_ALLOC_BITMAP \<or>
      a_dentry ! 0 = EXFATFS_DIR_ENTRY_TYPE_UPCASE_TABLE \<or>
      a_dentry ! 0 = EXFATFS_DIR_ENTRY_TYPE_ACT) \<and>
     fatfs_is_inum_in_range a_fatfs a_inum"


section \<open>The buffer parser\<close>

datatype TSK_RETVAL_ENUM = TSK_OK | TSK_ERR | TSK_COR | TSK_STOP

datatype TSK_ERRNO = TSK_ERR_FS_ARG

text \<open>
  What a call of \<^verbatim>\<open>exfatfs_dent_parse_buf\<close> does: it returns a value, with the error number
  it set last (if it set one) and the sink as it left it; or an \<^verbatim>\<open>assert\<close> aborts the
  program (in a build without \<^verbatim>\<open>NDEBUG\<close>); or the call has no defined behaviour (a read
  beyond the end of an argument array, a division by zero).
\<close>

datatype parse_outcome =
    Returned TSK_RETVAL_ENUM "TSK_ERRNO option" TSK_FS_DIR
  | Assert_Failed
  | Undefined_Behaviour

text \<open>
  The local variables of \<^verbatim>\<open>exfatfs_dent_parse_buf\<close> that live across iterations.
  \<open>dentry\<close> is the pointer into the buffer, as an index into the buffer seen as an array of
  \<^verbatim>\<open>FATFS_DENTRY\<close>; the two counters are \<^verbatim>\<open>int\<close>s (they count entries of the
  buffer and are taken not to overflow), \<open>is_corrupt_dir\<close> is a \<^verbatim>\<open>uint8_t\<close> that
  holds 0 or 1.

  \<open>classified\<close> is a history variable, not a variable of the source: it records, for
  every call of the classifier in order, the type the call returned (the value the
  \<^verbatim>\<open>switch\<close> then dispatches on), the hint it was given and the sector allocation status
  at the call.  Nothing reads it; it lets a statement speak of the first entries processed.
\<close>

record parse_state =
  name_info :: EXFATFS_FS_NAME_INFO
  dentry :: nat
  entries_count :: int
  invalid_entries_count :: int
  is_corrupt_dir :: bool
  classified :: "(EXFATFS_DIR_ENTRY_TYPE_ENUM \<times> bool \<times> int) list"

text \<open>
  A handler call in the \<^verbatim>\<open>switch\<close>: the handler's assertions stand at the head of the
  handler, so in a build with assertions the call aborts when they fail, and otherwise the
  body above runs.  \<open>ndebug\<close> tells whether the build defines \<^verbatim>\<open>NDEBUG\<close>.
\<close>

definition call_handler ::
  "bool \<Rightarrow> bool \<Rightarrow> parse_state \<Rightarrow> EXFATFS_FS_NAME_INFO \<Rightarrow> parse_outcome + parse_state" where
  "call_handler ndebug asserts_hold st ni =
     (if \<not> ndebug \<and> \<not> asserts_hold then Inl Assert_Failed else Inr (st\<lparr>name_info := ni\<rparr>))"

text \<open>The argument of the classifier call: \<^verbatim>\<open>(!is_corrupt_dir && name_info.sector_is_allocated)\<close>.\<close>

definition classifier_hint :: "parse_state \<Rightarrow> bool" where
  "classifier_hint st \<longleftrightarrow> \<not> is_corrupt_dir st \<and> sector_is_allocated (name_info st) \<noteq> 0"

text \<open>The \<^verbatim>\<open>switch (dentry_type)\<close> of the inner loop.\<close>

definition dispatch_dentry ::
  "bool \<Rightarrow> FATFS_INFO \<Rightarrow> EXFATFS_DIR_ENTRY_TYPE_ENUM \<Rightarrow> FATFS_DENTRY \<Rightarrow> TSK_INUM_T \<Rightarrow>
   parse_state \<Rightarrow> parse_outcome + parse_state" where
  "dispatch_dentry ndebug a_fatfs dentry_type current_dentry current_inum st =
     (let ni = name_info st in
      if dentry_type = EXFATFS_DIR_ENTRY_TYPE_FILE \<or>
         dentry_type = EXFATFS_DIR_ENTRY_TYPE_DELETED_FILE
      then call_handler ndebug (parse_file_dentry_asserts a_fatfs ni current_dentry current_inum) st
             (exfats_parse_file_dentry a_fatfs ni current_dentry current_inum)
      else if dentry_type = EXFATFS_DIR_ENTRY_TYPE_FILE_STREAM \<or>
              dentry_type = EXFATFS_DIR_ENTRY_TYPE_DELETED_FILE_STREAM
      then call_handler ndebug
             (parse_file_stream_dentry_asserts a_fatfs ni current_dentry current_inum) st
             (exfats_parse_file_stream_dentry a_fatfs ni current_dentry current_inum)
      else if dentry_type = EXFATFS_DIR_ENTRY_TYPE_FILE_NAME \<or>
              dentry_type = EXFATFS_DIR_ENTRY_TYPE_DELETED_FILE_NAME
      then call_handler ndebug
             (parse_file_name_dentry_asserts a_fatfs ni current_dentry current_inum) st
             (exfats_parse_file_name_dentry a_fatfs ni current_dentry current_inum)
      else if dentry_type = EXFATFS_DIR_ENTRY_TYPE_VOLUME_LABEL_EMPTY \<or>
              dentry_type = EXFATFS_DIR_ENTRY_TYPE_VOLUME_LABEL
      then if \<not> ndebug \<and> \<not> parse_vol_label_dentry_asserts a_fatfs ni current_dentry current_inum
           then Inl Assert_Failed
           else if \<not> vol_label_source_in_buffer current_dentry
           then Inl Undefined_Behaviour
           else Inr (st\<lparr>name_info :=
                       exfats_parse_vol_label_dentry a_fatfs ni current_dentry current_inum\<rparr>)
      else if dentry_type = EXFATFS_DIR_ENTRY_TYPE_VOLUME_GUID \<or>
              dentry_type = EXFATFS_DIR_ENTRY_TYPE_ALLOC_BITMAP \<or>
              dentry_type = EXFATFS_DIR_ENTRY_TYPE_UPCASE_TABLE \<or>
              dentry_type = EXFATFS_DIR_ENTRY_TYPE_TEX_FAT \<or>
              dentry_type = EXFATFS_DIR_ENTRY_TYPE_ACT
      then call_handler ndebug
             (parse_special_file_dentry_asserts a_fatfs ni current_dentry current_inum) st
             (exfats_parse_special_file_dentry a_fatfs ni current_dentry current_inum)
      else
        (let st = st\<lparr>invalid_entries_count := invalid_entries_count st + 1\<rparr>;
             st = (if entries_count st = 4 \<and> invalid_entries_count st = 4
                   then st\<lparr>is_corrupt_dir := True\<rparr> else st)
         in call_handler ndebug (name_info_asserts a_fatfs ni) st
              (exfatfs_add_name_to_dir_and_reset_info ni)))"

text \<open>
  The body of the inner loop, for the entry the pointer \<open>dentry\<close> stands at.  The buffer
  is given as the list of its entries of 32 bytes each; \<^verbatim>\<open>current_dentry\<close>, the pointer to
  the entry, is the buffer from that entry on.
\<close>

definition parse_dentry ::
  "bool \<Rightarrow> FATFS_INFO \<Rightarrow> FATFS_DENTRY list \<Rightarrow> TSK_INUM_T \<Rightarrow> nat \<Rightarrow> parse_state \<Rightarrow>
   parse_outcome + parse_state" where
  "parse_dentry ndebug a_fatfs a_buf base_inum_of_sector dentry_index st =
     (let current_inum = base_inum_of_sector + of_nat dentry_index;
          st = st\<lparr>entries_count := entries_count st + 1\<rparr>
      in if \<not> fatfs_is_inum_in_range a_fatfs current_inum
         then Inl (Returned TSK_ERR None (fs_dir (name_info st)))
         else if \<not> dentry st < length a_buf
         then Inl Undefined_Behaviour
         else
           (let current_dentry = concat (drop (dentry st) a_buf);
                dentry_type = exfatfs_is_dentry a_fatfs current_dentry (classifier_hint st);
                st = st\<lparr>classified := classified st @
                       [(dentry_type, classifier_hint st, sector_is_allocated (name_info st))]\<rparr>
            in dispatch_dentry ndebug a_fatfs dentry_type current_dentry current_inum st))"

text \<open>
  The inner loop: \<^verbatim>\<open>for (dentry_index = 0; dentry_index < a_fatfs->dentry_cnt_se;
  ++dentry_index, ++dentry)\<close>.
\<close>

function dentry_loop ::
  "bool \<Rightarrow> FATFS_INFO \<Rightarrow> FATFS_DENTRY list \<Rightarrow> TSK_INUM_T \<Rightarrow> nat \<Rightarrow> parse_state \<Rightarrow>
   parse_outcome + parse_state" where
  "dentry_loop ndebug a_fatfs a_buf base_inum_of_sector dentry_index st =
     (if dentry_index < dentry_cnt_se a_fatfs then
        (case parse_dentry ndebug a_fatfs a_buf base_inum_of_sector dentry_index st of
           Inl out \<Rightarrow> Inl out
         | Inr st' \<Rightarrow>
             dentry_loop ndebug a_fatfs a_buf base_inum_of_sector (dentry_index + 1)
               (st'\<lparr>dentry := dentry st' + 1\<rparr>))
      else Inr st)"
  by pat_completeness auto
termination
  by (relation "measure (\<lambda>(n, f, b, i, dentry_index, st). dentry_cnt_se f - dentry_index)") auto

declare dentry_loop.simps [simp del]

text \<open>The outer loop: \<^verbatim>\<open>for (sector_index = 0; sector_index < num_sectors; ++sector_index)\<close>.\<close>

function sector_loop ::
  "bool \<Rightarrow> FATFS_INFO \<Rightarrow> FATFS_DENTRY list \<Rightarrow> TSK_DADDR_T list \<Rightarrow> nat \<Rightarrow> nat \<Rightarrow> parse_state \<Rightarrow>
   parse_outcome + parse_state" where
  "sector_loop ndebug a_fatfs a_buf a_sector_addrs num_sectors sector_index st =
     (if sector_index < num_sectors then
        (if \<not> sector_index < length a_sector_addrs then Inl Undefined_Behaviour
         else
           (let base_inum_of_sector = FATFS_SECT_2_INODE a_fatfs (a_sector_addrs ! sector_index)
            in if base_inum_of_sector > last_inum a_fatfs
               then Inl (Returned TSK_COR (Some TSK_ERR_FS_ARG) (fs_dir (name_info st)))
               else
                 (let st = st\<lparr>name_info := (name_info st)
                              \<lparr>sector_is_allocated :=
                                 fatfs_is_sectalloc a_fatfs (a_sector_addrs ! sector_index)\<rparr>\<rparr>
                  in if sector_is_allocated (name_info st) = - 1
                     then sector_loop ndebug a_fatfs a_buf a_sector_addrs num_sectors
                            (sector_index + 1) st
                     else
                       (case dentry_loop ndebug a_fatfs a_buf base_inum_of_sector 0 st of
                          Inl out \<Rightarrow> Inl out
                        | Inr st' \<Rightarrow>
                            sector_loop ndebug a_fatfs a_buf a_sector_addrs num_sectors
                              (sector_index + 1) st'))))
      else Inr st)"
  by pat_completeness auto
termination
  by (relation "measure (\<lambda>(n, f, b, a, num_sectors, sector_index, st). num_sectors - sector_index)")
    auto

declare sector_loop.simps [simp del]

text \<open>
  The state before the loops: \<^verbatim>\<open>memset\<close> zeroes the accumulator, the name object is the
  allocated one with its first character cleared, and \<open>fs_dir\<close> is the caller's directory.
\<close>

definition initial_name_info :: "TSK_FS_NAME \<Rightarrow> TSK_FS_DIR \<Rightarrow> EXFATFS_FS_NAME_INFO" where
  "initial_name_info a_fs_name a_fs_dir =
     \<lparr>sector_is_allocated = 0, last_dentry_type = 0,
      expected_secondary_entry_count = 0, actual_secondary_entry_count = 0,
      expected_check_sum = 0, actual_check_sum = 0,
      expected_name_length = 0, actual_name_length = 0,
      fs_name = a_fs_name\<lparr>name := (name a_fs_name)[0 := CHR 0x00]\<rparr>,
      fs_dir = a_fs_dir\<rparr>"

definition initial_parse_state :: "TSK_FS_NAME \<Rightarrow> TSK_FS_DIR \<Rightarrow> parse_state" where
  "initial_parse_state a_fs_name a_fs_dir =
     \<lparr>name_info = initial_name_info a_fs_name a_fs_dir, dentry = 0,
      entries_count = 0, invalid_entries_count = 0, is_corrupt_dir = False,
      classified = []\<rparr>"

text \<open>
  Modelled from the spec: \<^verbatim>\<open>fatfs_is_ptr_arg_null\<close> is not among the sources; for a missing
  pointer it records an argument error and returns true.

  The pointer arguments are options (\<open>None\<close> for \<^verbatim>\<open>NULL\<close>); \<open>a_buf_len\<close> is a signed
  64-bit \<^verbatim>\<open>TSK_OFF_T\<close>.  The directory reported with an early return is the caller's, as
  far as there is one.
\<close>

definition exfatfs_dent_parse_buf ::
  "bool \<Rightarrow> FATFS_INFO option \<Rightarrow> TSK_FS_DIR option \<Rightarrow> FATFS_DENTRY list option \<Rightarrow> int \<Rightarrow>
   TSK_DADDR_T list option \<Rightarrow> parse_outcome" where
  "exfatfs_dent_parse_buf ndebug a_fatfs a_fs_dir a_buf a_buf_len a_sector_addrs =
     (case (a_fatfs, a_fs_dir, a_buf, a_sector_addrs) of
        (Some fatfs, Some dir, Some buf, Some addrs) \<Rightarrow>
          if \<not> ndebug \<and> \<not> a_buf_len > 0 then Assert_Failed
          else if a_buf_len < 0 then Returned TSK_ERR (Some TSK_ERR_FS_ARG) dir
          else
            (case tsk_fs_name_alloc fatfs (EXFATFS_MAX_NAME_LEN_UTF8 fatfs) of
               None \<Rightarrow> Returned TSK_ERR None dir
             | Some a_fs_name \<Rightarrow>
                 if ssize fatfs = 0 then Undefined_Behaviour
                 else
                   (let num_sectors = nat (a_buf_len div int (ssize fatfs)) in
                    case sector_loop ndebug fatfs buf addrs num_sectors 0
                           (initial_parse_state a_fs_name dir) of
                      Inl out \<Rightarrow> out
                    | Inr st \<Rightarrow>
                        if \<not> ndebug \<and> \<not> name_info_asserts fatfs (name_info st)
                        then Assert_Failed
                        else Returned TSK_OK None
                               (fs_dir (exfatfs_add_name_to_dir_and_reset_info (name_info st)))))
      | _ \<Rightarrow> Returned TSK_ERR (Some TSK_ERR_FS_ARG) (case a_fs_dir of Some dir \<Rightarrow> dir | None \<Rightarrow> []))"


section \<open>A file system for the examples\<close>

text \<open>
  Concrete collaborators, used only where a statement is evaluated at an example: sectors
  of 512 bytes with 16 entries each, every sector allocated, inode addresses from 2 to
  the argument of \<open>example_fatfs\<close>, a classifier that accepts an entry by its type tag alone, and a decoder for
  little-endian UTF-16 that converts the code units below \<^verbatim>\<open>0x80\<close>, terminates its
  output, and fails on any other unit or when the source is shorter than asked.
\<close>

definition example_is_dentry :: "FATFS_DENTRY \<Rightarrow> bool \<Rightarrow> EXFATFS_DIR_ENTRY_TYPE_ENUM" where
  "example_is_dentry d hint =
     (if d \<noteq> [] \<and>
         List.member
           [EXFATFS_DIR_ENTRY_TYPE_VOLUME_LABEL, EXFATFS_DIR_ENTRY_TYPE_VOLUME_LABEL_EMPTY,
            EXFATFS_DIR_ENTRY_TYPE_VOLUME_GUID, EXFATFS_DIR_ENTRY_TYPE_ALLOC_BITMAP,
            EXFATFS_DIR_ENTRY_TYPE_UPCASE_TABLE, EXFATFS_DIR_ENTRY_TYPE_TEX_FAT,
            EXFATFS_DIR_ENTRY_TYPE_ACT, EXFATFS_DIR_ENTRY_TYPE_FILE,
            EXFATFS_DIR_ENTRY_TYPE_DELETED_FILE, EXFATFS_DIR_ENTRY_TYPE_FILE_STREAM,
            EXFATFS_DIR_ENTRY_TYPE_DELETED_FILE_STREAM, EXFATFS_DIR_ENTRY_TYPE_FILE_NAME,
            EXFATFS_DIR_ENTRY_TYPE_DELETED_FILE_NAME] (d ! 0)
      then d ! 0 else EXFATFS_DIR_ENTRY_TYPE_NONE)"

fun utf16le_units :: "8 word list \<Rightarrow> 16 word list" where
  "utf16le_units (b0 # b1 # bs) = (ucast b0 OR push_bit 8 (ucast b1)) # utf16le_units bs"
| "utf16le_units bs = []"

definition example_utf16_2_utf8 ::
  "8 word list \<Rightarrow> nat \<Rightarrow> string \<Rightarrow> nat \<Rightarrow> TSK_INUM_T \<Rightarrow> TSKConversionResult \<times> string" where
  "example_utf16_2_utf8 src src_len dest dest_len inum =
     (let units = take src_len (utf16le_units src) in
      if length units < src_len then (TSKsourceExhausted, dest)
      else if \<not> list_all (\<lambda>u. u < 0x80) units then (TSKsourceIllegal, dest)
      else if \<not> src_len < dest_len then (TSKtargetExhausted, dest)
      else (TSKconversionOK,
            map (\<lambda>u. char_of (unat u)) units @ [CHR 0x00] @ drop (src_len + 1) dest))"

definition example_name_alloc :: "nat \<Rightarrow> TSK_FS_NAME option" where
  "example_name_alloc n =
     Some \<lparr>name = replicate (n + 1) (CHR 0x00), name_size = n, meta_addr = 0,
           type = TSK_FS_NAME_TYPE_UNDEF, flags = TSK_FS_NAME_FLAG_ALLOC\<rparr>"

definition example_fatfs :: "TSK_INUM_T \<Rightarrow> FATFS_INFO" where
  "example_fatfs lst =
     \<lparr>ssize = 512, dentry_cnt_se = 16, first_inum = 2, last_inum = lst,
      endian = TSK_LIT_ENDIAN,
      FATFS_SECT_2_INODE = (\<lambda>s. s * 16 + 3),
      fatfs_is_inum_in_range = (\<lambda>i. 2 \<le> i \<and> i \<le> lst),
      fatfs_is_sectalloc = (\<lambda>s. 1),
      exfatfs_is_dentry = example_is_dentry,
      fatfs_utf16_inode_str_2_utf8 = example_utf16_2_utf8,
      tsk_fs_name_alloc = example_name_alloc,
      EXFATFS_MAX_NAME_LEN_UTF8 = 1024\<rparr>"

text \<open>An entry of 32 bytes from its leading bytes, the rest zero.\<close>

definition dentry_of :: "8 word list \<Rightarrow> FATFS_DENTRY" where
  "dentry_of bs = take 32 (bs @ replicate 32 0)"

section \<open>Notions used in the statements\<close>

text \<open>
  The types for which the \<^verbatim>\<open>switch\<close> of the parser has a handler; an entry of any other
  type, \<^verbatim>\<open>EXFATFS_DIR_ENTRY_TYPE_NONE\<close> included, takes the default branch and counts as
  invalid.  A call of the classifier, as the history records it, is unclassifiable when the
  type returned has no handler.  The first four entries processed are all unclassifiable
  when the history has at least four calls and its first four are.  The hint of the
  \<open>k\<close>-th call follows the flag when it is the conjunction of the sector's allocation
  status with the negation of "the first four entries processed before the call were all
  unclassifiable".
\<close>

definition has_handler :: "EXFATFS_DIR_ENTRY_TYPE_ENUM \<Rightarrow> bool" where
  "has_handler t \<longleftrightarrow>
     t = EXFATFS_DIR_ENTRY_TYPE_FILE \<or> t = EXFATFS_DIR_ENTRY_TYPE_DELETED_FILE \<or>
     t = EXFATFS_DIR_ENTRY_TYPE_FILE_STREAM \<or> t = EXFATFS_DIR_ENTRY_TYPE_DELETED_FILE_STREAM \<or>
     t = EXFATFS_DIR_ENTRY_TYPE_FILE_NAME \<or> t = EXFATFS_DIR_ENTRY_TYPE_DELETED_FILE_NAME \<or>
     t = EXFATFS_DIR_ENTRY_TYPE_VOLUME_LABEL_EMPTY \<or> t = EXFATFS_DIR_ENTRY_TYPE_VOLUME_LABEL \<or>
     t = EXFATFS_DIR_ENTRY_TYPE_VOLUME_GUID \<or> t = EXFATFS_DIR_ENTRY_TYPE_ALLOC_BITMAP \<or>
     t = EXFATFS_DIR_ENTRY_TYPE_UPCASE_TABLE \<or> t = EXFATFS_DIR_ENTRY_TYPE_TEX_FAT \<or>
     t = EXFATFS_DIR_ENTRY_TYPE_ACT"

definition unclassifiable :: "EXFATFS_DIR_ENTRY_TYPE_ENUM \<times> bool \<times> int \<Rightarrow> bool" where
  "unclassifiable c \<longleftrightarrow> \<not> has_handler (fst c)"

definition first_four_unclassifiable :: "(EXFATFS_DIR_ENTRY_TYPE_ENUM \<times> bool \<times> int) list \<Rightarrow> bool" where
  "first_four_unclassifiable h \<longleftrightarrow> 4 \<le> length h \<and> list_all unclassifiable (take 4 h)"

definition hint_follows_flag :: "(EXFATFS_DIR_ENTRY_TYPE_ENUM \<times> bool \<times> int) list \<Rightarrow> nat \<Rightarrow> bool" where
  "hint_follows_flag h k \<longleftrightarrow>
     fst (snd (h ! k)) = (\<not> first_four_unclassifiable (take k h) \<and> snd (snd (h ! k)) \<noteq> 0)"

text \<open>What the counters, the flag and the hints are in terms of the history.\<close>

definition corrupt_flag_inv :: "parse_state \<Rightarrow> bool" where
  "corrupt_flag_inv st \<longleftrightarrow>
     entries_count st = int (length (classified st)) \<and>
     invalid_entries_count st = int (length (filter unclassifiable (classified st))) \<and>
     is_corrupt_dir st = first_four_unclassifiable (classified st) \<and>
     list_all (hint_follows_flag (classified st)) [0..<length (classified st)]"

definition calls_inv :: "parse_state \<Rightarrow> bool" where
  "calls_inv st \<longleftrightarrow> corrupt_flag_inv st \<and> dentry st = length (classified st)"

text \<open>
  The calls of the classifier a parse has to make, stated from the arguments of the parse
  alone.  The parser processes the sectors in order, leaves out a sector whose allocation
  status could not be looked up (the oracle's \<open>- 1\<close>), and processes in every other
  sector as many entries as a sector holds, each under the allocation status of that
  sector: \<open>entry_allocs\<close> lists these statuses, one per processed entry.  The
  \<open>k\<close>-th processed entry is the \<open>k\<close>-th entry of the buffer, handed over as the buffer
  from that entry on.  Its call has to get the hint "the sector is allocated, and the first
  four entries processed so far were not all unclassifiable", and it returns what the
  classifier of the file system returns for the entry and that hint:
  \<open>expected_classifier_calls\<close> extends a history by the calls for a list of statuses.
\<close>

definition entry_allocs :: "FATFS_INFO \<Rightarrow> TSK_DADDR_T list \<Rightarrow> int list" where
  "entry_allocs a_fatfs addrs =
     concat (map (\<lambda>s. if fatfs_is_sectalloc a_fatfs s = - 1 then []
                       else replicate (dentry_cnt_se a_fatfs) (fatfs_is_sectalloc a_fatfs s))
               addrs)"

fun expected_classifier_calls ::
  "FATFS_INFO \<Rightarrow> FATFS_DENTRY list \<Rightarrow> int list \<Rightarrow>
   (EXFATFS_DIR_ENTRY_TYPE_ENUM \<times> bool \<times> int) list \<Rightarrow>
   (EXFATFS_DIR_ENTRY_TYPE_ENUM \<times> bool \<times> int) list" where
  "expected_classifier_calls a_fatfs a_buf [] h = h"
| "expected_classifier_calls a_fatfs a_buf (a # as) h =
     expected_classifier_calls a_fatfs a_buf as
       (h @ [(exfatfs_is_dentry a_fatfs (concat (drop (length h) a_buf))
                (\<not> first_four_unclassifiable h \<and> a \<noteq> 0),
              \<not> first_four_unclassifiable h \<and> a \<noteq> 0, a)])"

text \<open>
  A file system for an example in which the hint matters: its classifier is the one of the
  examples above, except that it rejects, unless it is told to assume the sector allocated,
  a file entry that declares more than 18 secondary entries.  The directory of the example
  is one sector: four entries of zeros, a file entry that declares 19 secondary entries, the
  stream entry and the name entry \<open>AB\<close> of the example set below, and nine entries of
  zeros.
\<close>

definition careful_is_dentry :: "FATFS_DENTRY \<Rightarrow> bool \<Rightarrow> EXFATFS_DIR_ENTRY_TYPE_ENUM" where
  "careful_is_dentry d hint =
     (if \<not> hint \<and> example_is_dentry d hint = EXFATFS_DIR_ENTRY_TYPE_FILE \<and>
         18 < secondary_entries_count d
      then EXFATFS_DIR_ENTRY_TYPE_NONE else example_is_dentry d hint)"

definition careful_fatfs :: FATFS_INFO where
  "careful_fatfs = (example_fatfs 1000)\<lparr>exfatfs_is_dentry := careful_is_dentry\<rparr>"

definition corrupt_dir_buf :: "FATFS_DENTRY list" where
  "corrupt_dir_buf =
     replicate 4 (dentry_of []) @
     [dentry_of [0x85, 19], dentry_of [0xC0, 0, 0, 2], dentry_of [0xC1, 0, 0x41, 0, 0x42, 0]] @
     replicate 9 (dentry_of [])"


text \<open>
  The in-use variant of a type tag is its in-use bit, \<^verbatim>\<open>0x80\<close>.  A stream entry
  disagrees with the entry before it when that entry is a file or deleted file entry of the
  other variant; a name entry disagrees with the entry before it when that entry is a
  stream or name entry, deleted or not, of the other variant.
\<close>

definition in_use_variant :: "EXFATFS_DIR_ENTRY_TYPE_ENUM \<Rightarrow> bool" where
  "in_use_variant t \<longleftrightarrow> t AND 0x80 \<noteq> 0"

definition stream_variant_mismatch ::
  "EXFATFS_DIR_ENTRY_TYPE_ENUM \<Rightarrow> EXFATFS_DIR_ENTRY_TYPE_ENUM \<Rightarrow> bool" where
  "stream_variant_mismatch last_type t \<longleftrightarrow>
     (last_type = EXFATFS_DIR_ENTRY_TYPE_FILE \<or> last_type = EXFATFS_DIR_ENTRY_TYPE_DELETED_FILE) \<and>
     (t = EXFATFS_DIR_ENTRY_TYPE_FILE_STREAM \<or> t = EXFATFS_DIR_ENTRY_TYPE_DELETED_FILE_STREAM) \<and>
     in_use_variant last_type \<noteq> in_use_variant t"

definition name_variant_mismatch ::
  "EXFATFS_DIR_ENTRY_TYPE_ENUM \<Rightarrow> EXFATFS_DIR_ENTRY_TYPE_ENUM \<Rightarrow> bool" where
  "name_variant_mismatch last_type t \<longleftrightarrow>
     (last_type = EXFATFS_DIR_ENTRY_TYPE_FILE_STREAM \<or>
      last_type = EXFATFS_DIR_ENTRY_TYPE_DELETED_FILE_STREAM \<or>
      last_type = EXFATFS_DIR_ENTRY_TYPE_FILE_NAME \<or>
      last_type = EXFATFS_DIR_ENTRY_TYPE_DELETED_FILE_NAME) \<and>
     (t = EXFATFS_DIR_ENTRY_TYPE_FILE_NAME \<or> t = EXFATFS_DIR_ENTRY_TYPE_DELETED_FILE_NAME) \<and>
     in_use_variant last_type \<noteq> in_use_variant t"

text \<open>
  An entry set for the examples: an in-use file entry that declares three secondary
  entries, an in-use stream entry that declares a name of two characters, an in-use name
  entry with the characters \<open>AB\<close>, and a deleted name entry.  \<open>example_open_set\<close> is
  the parser's state with the accumulator as the first three leave it, in an allocated
  sector.
\<close>

definition example_file_entry :: FATFS_DENTRY where
  "example_file_entry = dentry_of [0x85, 3]"
definition example_stream_entry :: FATFS_DENTRY where
  "example_stream_entry = dentry_of [0xC0, 0, 0, 2]"
definition example_name_entry :: FATFS_DENTRY where
  "example_name_entry = dentry_of [0xC1, 0, 0x41, 0, 0x42, 0]"
definition example_deleted_name_entry :: FATFS_DENTRY where
  "example_deleted_name_entry = dentry_of [0x41, 0, 0x43, 0]"

definition example_open_set :: parse_state where
  "example_open_set =
     (initial_parse_state (the (example_name_alloc 1024)) [])
       \<lparr>name_info :=
          exfats_parse_file_name_dentry (example_fatfs 1000)
            (exfats_parse_file_stream_dentry (example_fatfs 1000)
               (exfats_parse_file_dentry (example_fatfs 1000)
                  ((initial_name_info (the (example_name_alloc 1024)) [])\<lparr>sector_is_allocated := 1\<rparr>)
                  example_file_entry 3)
               example_stream_entry 4)
            example_name_entry 5\<rparr>"










text \<open>
  Volume label entries for the examples: one that declares 15 characters and carries the
  label \<open>ABCDEFGHIJKLMNO\<close>, which fills the 30 bytes behind the count, and one that
  declares 255 characters.
\<close>

definition full_label_entry :: FATFS_DENTRY where
  "full_label_entry =
     [0x83, 15] @
     concat (map (\<lambda>c. [c, 0])
       [0x41, 0x42, 0x43, 0x44, 0x45, 0x46, 0x47, 0x48, 0x49, 0x4A, 0x4B, 0x4C, 0x4D, 0x4E, 0x4F])"

definition long_label_entry :: FATFS_DENTRY where
  "long_label_entry = dentry_of [0x83, 255]"

text \<open>
  A directory for the examples in which the observed count of secondary entries passes 255:
  an in-use file entry that declares no secondary entry, an in-use stream entry that
  declares a name of length 0, and 270 in-use name entries, in 17 sectors at the sector
  addresses 0 to 16.  \<open>wrap_after_file\<close> and \<open>wrap_after_stream\<close> are the accumulator
  after the first and after the second entry.
\<close>

definition wrap_file_entry :: FATFS_DENTRY where
  "wrap_file_entry = dentry_of [0x85, 0]"
definition wrap_stream_entry :: FATFS_DENTRY where
  "wrap_stream_entry = dentry_of [0xC0]"
definition wrap_name_entry :: FATFS_DENTRY where
  "wrap_name_entry = dentry_of [0xC1]"





text \<open>
  The accumulator during the run of name entries of that directory, with the observed
  count \<open>c\<close>, and after the set has been closed; the parser's state when \<open>k\<close> entries
  have been processed and the run is open, or closed.
\<close>

definition name_run :: "EXFATFS_FS_NAME_INFO \<Rightarrow> 8 word \<Rightarrow> bool" where
  "name_run ni c \<longleftrightarrow>
     (last_dentry_type ni = EXFATFS_DIR_ENTRY_TYPE_FILE_STREAM \<and> c = 1 \<or>
      last_dentry_type ni = EXFATFS_DIR_ENTRY_TYPE_FILE_NAME) \<and>
     expected_secondary_entry_count ni = 0 \<and> actual_secondary_entry_count ni = c \<and>
     expected_name_length ni = 0 \<and> actual_name_length ni = 0 \<and>
     name_size (fs_name ni) = 1024"


definition run_open :: "parse_state \<Rightarrow> nat \<Rightarrow> bool" where
  "run_open st k \<longleftrightarrow> dentry st = k \<and> name_run (name_info st) (of_nat (k - 1))"



section \<open>The check sum is a rotate-and-add fold\<close>

lemma rotate_part_eq_word_rotr:
  "(ucast ((push_bit 15 (ucast cs :: 32 word)) OR (drop_bit 1 (ucast cs :: 32 word))) :: 16 word)
     = word_rotr 1 cs"
proof (rule bit_word_eqI)
  fix n :: nat
  assume "n < LENGTH(16)"
  then consider "n = 15" | "n < 15" by fastforce
  then show "bit (ucast ((push_bit 15 (ucast cs :: 32 word)) OR (drop_bit 1 (ucast cs :: 32 word)))
                  :: 16 word) n
     \<longleftrightarrow> bit (word_rotr 1 cs) n"
  proof cases
    case 1
    then show ?thesis
      by (auto simp add: bit_simps bit_word_rotr_iff dest: bit_imp_le_length)
  next
    case 2
    then show ?thesis
      by (simp add: bit_simps bit_word_rotr_iff)
  qed
qed

lemma truncate_sum_32_16:
  "(ucast ((x :: 32 word) + ucast (b :: 16 word)) :: 16 word) = ucast x + b"
proof -
  have l: "unat (ucast (x + ucast b) :: 16 word) = ((unat x + unat b) mod 2 ^ 32) mod 2 ^ 16"
    by (simp add: unsigned_ucast_eq take_bit_eq_mod unat_word_ariths mod_add_right_eq)
  have r: "unat ((ucast x :: 16 word) + b) = (unat x mod 2 ^ 16 + unat b) mod 2 ^ 16"
    by (simp add: unsigned_ucast_eq take_bit_eq_mod unat_word_ariths)
  have d: "(2::nat) ^ 16 dvd 2 ^ 32"
    by (rule le_imp_power_dvd) simp
  have "((unat x + unat b) mod 2 ^ 32) mod 2 ^ 16 = (unat x + unat b) mod (2::nat) ^ 16"
    using d by (rule mod_mod_cancel)
  also have "\<dots> = (unat x mod 2 ^ 16 + unat b) mod 2 ^ 16"
    by (rule mod_add_left_eq [symmetric])
  finally have "unat (ucast (x + ucast b) :: 16 word) = unat ((ucast x :: 16 word) + b)"
    using l r by simp
  then show ?thesis
    by (rule word_unat_eq_iff [THEN iffD2])
qed

lemma checksum_assign_rotr: "checksum_assign cs b = word_rotr 1 cs + b"
  unfolding checksum_assign_def by (simp only: truncate_sum_32_16 rotate_part_eq_word_rotr)

lemma rotl_15_is_rotr_1: "word_rotl 15 (cs :: 16 word) = word_rotr 1 cs"
  by (simp add: word_rotl_eq_word_rotr)

lemma checksum_loop_foldl:
  "checksum_loop t d index cs =
     foldl (\<lambda>c i. if (t = EXFATFS_DIR_ENTRY_TYPE_FILE \<or> t = EXFATFS_DIR_ENTRY_TYPE_DELETED_FILE)
                      \<and> (i = 2 \<or> i = 3)
                   then c else checksum_assign c (checksum_byte_to_add t d i))
           cs [index..<32]"
proof (induction t d index cs rule: checksum_loop.induct)
  case (1 t d index cs)
  show ?case
  proof (cases "index < 32")
    case True
    then have u: "[index..<32] = index # [index + 1..<32]"
      by (simp add: upt_conv_Cons)
    from True 1 show ?thesis
      by (subst checksum_loop.simps) (simp add: u del: upt.simps)
  next
    case False
    then show ?thesis
      by (subst checksum_loop.simps) simp
  qed
qed

lemma foldl_map_filter:
  "foldl f a (map g (filter P xs)) = foldl (\<lambda>c i. if P i then f c (g i) else c) a xs"
  by (induction xs arbitrary: a) auto

lemma checksum_byte_to_add_spec:
  "checksum_byte_to_add (d ! 0) d i = ucast (spec_folded_byte d i)"
  by (simp add: checksum_byte_to_add_def spec_folded_byte_def spec_in_use_tag_def)

lemma checksum_loop_spec: "checksum_loop (d ! 0) d 0 cs = spec_checksum cs d"
proof -
  have "(\<lambda>c i. if (d ! 0 = EXFATFS_DIR_ENTRY_TYPE_FILE \<or>
                    d ! 0 = EXFATFS_DIR_ENTRY_TYPE_DELETED_FILE) \<and> (i = 2 \<or> i = 3)
               then c else word_rotr 1 c + ucast (spec_folded_byte d i))
      = (\<lambda>c i. if \<not> ((d ! 0 = EXFATFS_DIR_ENTRY_TYPE_FILE \<or>
                        d ! 0 = EXFATFS_DIR_ENTRY_TYPE_DELETED_FILE) \<and> (i = 2 \<or> i = 3))
               then word_rotr 1 c + ucast (spec_folded_byte d i) else c)"
    by (intro ext) simp
  then have "foldl (\<lambda>c i. if (d ! 0 = EXFATFS_DIR_ENTRY_TYPE_FILE \<or>
                    d ! 0 = EXFATFS_DIR_ENTRY_TYPE_DELETED_FILE) \<and> (i = 2 \<or> i = 3)
               then c else word_rotr 1 c + ucast (spec_folded_byte d i)) cs [0..<32]
      = foldl (\<lambda>c i. if \<not> ((d ! 0 = EXFATFS_DIR_ENTRY_TYPE_FILE \<or>
                        d ! 0 = EXFATFS_DIR_ENTRY_TYPE_DELETED_FILE) \<and> (i = 2 \<or> i = 3))
               then word_rotr 1 c + ucast (spec_folded_byte d i) else c) cs [0..<32]"
    by (rule arg_cong [where f = "\<lambda>f. foldl f cs [0..<32]"])
  then show ?thesis
    by (simp only: checksum_loop_foldl checksum_assign_rotr checksum_byte_to_add_spec
        spec_checksum_def spec_folded_positions_def foldl_map_filter spec_fold_byte_def)
qed

text \<open>
  C1. The check sum update folds the byte positions 0 to 31 of the entry, in order, into
  the running 16-bit check sum, each by a rotation to the right by one bit (which is a
  rotation to the left by 15) followed by an addition modulo \<open>2^16\<close>; positions 2 and 3
  are left out for a file or deleted file entry; at position 0 a deleted file, deleted
  stream or deleted name tag is folded as the file, stream or name tag, and every other
  tag as itself.  The source computes the rotation in 32-bit \<^verbatim>\<open>int\<close> arithmetic and
  truncates; \<open>spec_checksum\<close> is the fold in the specification's words.
\<close>

theorem update_checksum_is_rotate_add_fold:
  "exfatfs_update_file_entry_set_checksum a_name_info a_dentry =
     a_name_info\<lparr>actual_check_sum := spec_checksum (actual_check_sum a_name_info) a_dentry\<rparr>
   \<and> spec_fold_byte cs b = word_rotl 15 cs + ucast b"
  by (simp add: exfatfs_update_file_entry_set_checksum_def checksum_loop_spec
      spec_fold_byte_def rotl_15_is_rotr_1)

section \<open>Finalize and reset\<close>

lemma strlen_clear_first [simp]: "strlen (buf[0 := CHR 0x00]) = 0"
  by (cases buf) (simp_all add: strlen_def c_str_def)

lemma reset_reset [simp]:
  "exfatfs_reset_name_info (exfatfs_reset_name_info ni) = exfatfs_reset_name_info ni"
  by (simp add: exfatfs_reset_name_info_def)

lemma strlen_name_reset [simp]:
  "strlen (name (fs_name (exfatfs_reset_name_info ni))) = 0"
  by (simp add: exfatfs_reset_name_info_def)

lemma fs_dir_reset [simp]: "fs_dir (exfatfs_reset_name_info ni) = fs_dir ni"
  by (simp add: exfatfs_reset_name_info_def)

lemma finalize_of_reset [simp]:
  "exfatfs_add_name_to_dir_and_reset_info (exfatfs_reset_name_info ni) =
     exfatfs_reset_name_info ni"
  by (simp add: exfatfs_add_name_to_dir_and_reset_info_def)

lemma fs_dir_finalize:
  "fs_dir (exfatfs_add_name_to_dir_and_reset_info ni) =
     (if 0 < strlen (name (fs_name ni)) then tsk_fs_dir_add (fs_dir ni) (fs_name ni)
      else fs_dir ni)"
  by (simp add: exfatfs_add_name_to_dir_and_reset_info_def)

lemma finalize_is_reset:
  "exfatfs_add_name_to_dir_and_reset_info ni =
     exfatfs_reset_name_info (ni\<lparr>fs_dir := fs_dir (exfatfs_add_name_to_dir_and_reset_info ni)\<rparr>)"
  by (simp add: exfatfs_add_name_to_dir_and_reset_info_def exfatfs_reset_name_info_def)

lemma strlen_name_finalize [simp]:
  "strlen (name (fs_name (exfatfs_add_name_to_dir_and_reset_info ni))) = 0"
  by (simp add: exfatfs_add_name_to_dir_and_reset_info_def)

lemma reset_finalize [simp]:
  "exfatfs_reset_name_info (exfatfs_add_name_to_dir_and_reset_info ni) =
     exfatfs_add_name_to_dir_and_reset_info ni"
  by (simp add: exfatfs_add_name_to_dir_and_reset_info_def)

lemma finalize_finalize [simp]:
  "exfatfs_add_name_to_dir_and_reset_info (exfatfs_add_name_to_dir_and_reset_info ni) =
     exfatfs_add_name_to_dir_and_reset_info ni"
proof -
  have "exfatfs_add_name_to_dir_and_reset_info (exfatfs_add_name_to_dir_and_reset_info ni) =
      exfatfs_reset_name_info (exfatfs_add_name_to_dir_and_reset_info ni)"
    by (subst exfatfs_add_name_to_dir_and_reset_info_def) simp
  then show ?thesis by simp
qed

lemma finalize_record:
  "exfatfs_add_name_to_dir_and_reset_info ni =
     \<lparr>sector_is_allocated = sector_is_allocated ni,
      last_dentry_type = EXFATFS_DIR_ENTRY_TYPE_NONE,
      expected_secondary_entry_count = 0, actual_secondary_entry_count = 0,
      expected_check_sum = 0, actual_check_sum = 0,
      expected_name_length = 0, actual_name_length = 0,
      fs_name = \<lparr>name = (name (fs_name ni))[0 := CHR 0x00],
                 name_size = name_size (fs_name ni), meta_addr = 0,
                 type = TSK_FS_NAME_TYPE_UNDEF, flags = TSK_FS_NAME_FLAG_ALLOC\<rparr>,
      fs_dir = (if 0 < strlen (name (fs_name ni))
                then fs_dir ni @
                  [\<lparr>nr_name = c_str (name (fs_name ni)), nr_meta_addr = meta_addr (fs_name ni),
                    nr_type = type (fs_name ni), nr_flags = flags (fs_name ni)\<rparr>]
                else fs_dir ni)\<rparr>"
  by (simp add: exfatfs_add_name_to_dir_and_reset_info_def exfatfs_reset_name_info_def
      tsk_fs_dir_add_def)

lemma reset_record:
  "exfatfs_reset_name_info ni =
     \<lparr>sector_is_allocated = sector_is_allocated ni,
      last_dentry_type = EXFATFS_DIR_ENTRY_TYPE_NONE,
      expected_secondary_entry_count = 0, actual_secondary_entry_count = 0,
      expected_check_sum = 0, actual_check_sum = 0,
      expected_name_length = 0, actual_name_length = 0,
      fs_name = \<lparr>name = (name (fs_name ni))[0 := CHR 0x00],
                 name_size = name_size (fs_name ni), meta_addr = 0,
                 type = TSK_FS_NAME_TYPE_UNDEF, flags = TSK_FS_NAME_FLAG_ALLOC\<rparr>,
      fs_dir = fs_dir ni\<rparr>"
  by (simp add: exfatfs_reset_name_info_def)

lemma finalize_closed:
  "exfatfs_add_name_to_dir_and_reset_info
     \<lparr>sector_is_allocated = a,
      last_dentry_type = EXFATFS_DIR_ENTRY_TYPE_NONE,
      expected_secondary_entry_count = 0, actual_secondary_entry_count = 0,
      expected_check_sum = 0, actual_check_sum = 0,
      expected_name_length = 0, actual_name_length = 0,
      fs_name = \<lparr>name = CHR 0x00 # rest, name_size = n, meta_addr = 0,
                 type = TSK_FS_NAME_TYPE_UNDEF, flags = TSK_FS_NAME_FLAG_ALLOC\<rparr>,
      fs_dir = dir\<rparr> =
     \<lparr>sector_is_allocated = a,
      last_dentry_type = EXFATFS_DIR_ENTRY_TYPE_NONE,
      expected_secondary_entry_count = 0, actual_secondary_entry_count = 0,
      expected_check_sum = 0, actual_check_sum = 0,
      expected_name_length = 0, actual_name_length = 0,
      fs_name = \<lparr>name = CHR 0x00 # rest, name_size = n, meta_addr = 0,
                 type = TSK_FS_NAME_TYPE_UNDEF, flags = TSK_FS_NAME_FLAG_ALLOC\<rparr>,
      fs_dir = dir\<rparr>"
  by (simp add: exfatfs_add_name_to_dir_and_reset_info_def exfatfs_reset_name_info_def
      strlen_def c_str_def)

text \<open>
  C7. Finalize-and-reset hands a record to the sink if and only if the pending name is not
  empty: the sink afterwards is the sink before with the record of the pending name
  appended when the name is not empty, and the sink before otherwise.  The accumulator
  afterwards is the reset one whatever the name was.  On an accumulator that is already
  reset, finalize changes nothing (no record, the same accumulator), and finalizing twice
  is finalizing once.

  What reset means is part of the statement.  The accumulator after finalize is given field
  by field: the last entry type is the null type, the declared and the observed count of
  secondary entries, both check sums and both name lengths are 0, the name buffer is the
  old one with its first character cleared, the inode address is 0, the kind is undefined
  and the flag is Allocated; the allocation status of the sector and the size of the name
  buffer are the old ones; the sink is the old one, with the record of the pending name
  (its text up to the first zero character, its inode address, kind and flag) appended
  when that text is not empty.  Reset alone gives the same accumulator with the old sink.
  And finalize maps every accumulator with these closed values and an empty name, whatever
  its sector status, the rest of its name buffer, its size and its sink are, to itself.
\<close>

theorem finalize_emits_iff_nonempty_and_is_idempotent:
  "fs_dir (exfatfs_add_name_to_dir_and_reset_info ni) =
     (if 0 < strlen (name (fs_name ni)) then tsk_fs_dir_add (fs_dir ni) (fs_name ni)
      else fs_dir ni)
   \<and> length (fs_dir (exfatfs_add_name_to_dir_and_reset_info ni)) =
       length (fs_dir ni) + (if strlen (name (fs_name ni)) = 0 then 0 else 1)
   \<and> exfatfs_add_name_to_dir_and_reset_info ni =
       exfatfs_reset_name_info
         (ni\<lparr>fs_dir := fs_dir (exfatfs_add_name_to_dir_and_reset_info ni)\<rparr>)
   \<and> strlen (name (fs_name (exfatfs_add_name_to_dir_and_reset_info ni))) = 0
   \<and> exfatfs_add_name_to_dir_and_reset_info (exfatfs_reset_name_info ni) =
       exfatfs_reset_name_info ni
   \<and> exfatfs_add_name_to_dir_and_reset_info (exfatfs_add_name_to_dir_and_reset_info ni) =
       exfatfs_add_name_to_dir_and_reset_info ni
   \<and> exfatfs_add_name_to_dir_and_reset_info ni =
       \<lparr>sector_is_allocated = sector_is_allocated ni,
        last_dentry_type = EXFATFS_DIR_ENTRY_TYPE_NONE,
        expected_secondary_entry_count = 0, actual_secondary_entry_count = 0,
        expected_check_sum = 0, actual_check_sum = 0,
        expected_name_length = 0, actual_name_length = 0,
        fs_name = \<lparr>name = (name (fs_name ni))[0 := CHR 0x00],
                   name_size = name_size (fs_name ni), meta_addr = 0,
                   type = TSK_FS_NAME_TYPE_UNDEF, flags = TSK_FS_NAME_FLAG_ALLOC\<rparr>,
        fs_dir = (if 0 < strlen (name (fs_name ni))
                  then fs_dir ni @
                    [\<lparr>nr_name = c_str (name (fs_name ni)),
                      nr_meta_addr = meta_addr (fs_name ni),
                      nr_type = type (fs_name ni), nr_flags = flags (fs_name ni)\<rparr>]
                  else fs_dir ni)\<rparr>
   \<and> exfatfs_reset_name_info ni =
       \<lparr>sector_is_allocated = sector_is_allocated ni,
        last_dentry_type = EXFATFS_DIR_ENTRY_TYPE_NONE,
        expected_secondary_entry_count = 0, actual_secondary_entry_count = 0,
        expected_check_sum = 0, actual_check_sum = 0,
        expected_name_length = 0, actual_name_length = 0,
        fs_name = \<lparr>name = (name (fs_name ni))[0 := CHR 0x00],
                   name_size = name_size (fs_name ni), meta_addr = 0,
                   type = TSK_FS_NAME_TYPE_UNDEF, flags = TSK_FS_NAME_FLAG_ALLOC\<rparr>,
        fs_dir = fs_dir ni\<rparr>
   \<and> exfatfs_add_name_to_dir_and_reset_info
       \<lparr>sector_is_allocated = a,
        last_dentry_type = EXFATFS_DIR_ENTRY_TYPE_NONE,
        expected_secondary_entry_count = 0, actual_secondary_entry_count = 0,
        expected_check_sum = 0, actual_check_sum = 0,
        expected_name_length = 0, actual_name_length = 0,
        fs_name = \<lparr>name = CHR 0x00 # rest, name_size = n, meta_addr = 0,
                   type = TSK_FS_NAME_TYPE_UNDEF, flags = TSK_FS_NAME_FLAG_ALLOC\<rparr>,
        fs_dir = dir\<rparr> =
       \<lparr>sector_is_allocated = a,
        last_dentry_type = EXFATFS_DIR_ENTRY_TYPE_NONE,
        expected_secondary_entry_count = 0, actual_secondary_entry_count = 0,
        expected_check_sum = 0, actual_check_sum = 0,
        expected_name_length = 0, actual_name_length = 0,
        fs_name = \<lparr>name = CHR 0x00 # rest, name_size = n, meta_addr = 0,
                   type = TSK_FS_NAME_TYPE_UNDEF, flags = TSK_FS_NAME_FLAG_ALLOC\<rparr>,
        fs_dir = dir\<rparr>"
proof -
  have 1: "fs_dir (exfatfs_add_name_to_dir_and_reset_info ni) =
     (if 0 < strlen (name (fs_name ni)) then tsk_fs_dir_add (fs_dir ni) (fs_name ni)
      else fs_dir ni)"
    by (rule fs_dir_finalize)
  have 2: "length (fs_dir (exfatfs_add_name_to_dir_and_reset_info ni)) =
       length (fs_dir ni) + (if strlen (name (fs_name ni)) = 0 then 0 else 1)"
    by (simp add: fs_dir_finalize tsk_fs_dir_add_def)
  have 3: "exfatfs_add_name_to_dir_and_reset_info ni =
       exfatfs_reset_name_info
         (ni\<lparr>fs_dir := fs_dir (exfatfs_add_name_to_dir_and_reset_info ni)\<rparr>)"
    by (rule finalize_is_reset)
  have 4: "strlen (name (fs_name (exfatfs_add_name_to_dir_and_reset_info ni))) = 0"
    by (rule strlen_name_finalize)
  have 5: "exfatfs_add_name_to_dir_and_reset_info (exfatfs_reset_name_info ni) =
       exfatfs_reset_name_info ni"
    by (rule finalize_of_reset)
  have 6: "exfatfs_add_name_to_dir_and_reset_info (exfatfs_add_name_to_dir_and_reset_info ni) =
       exfatfs_add_name_to_dir_and_reset_info ni"
    by (rule finalize_finalize)
  from 1 2 3 4 5 6 show ?thesis
    by (intro conjI) (assumption | rule finalize_record reset_record finalize_closed)+
qed

section \<open>The file entry handler\<close>

lemma flags_update_checksum [simp]:
  "fs_name (exfatfs_update_file_entry_set_checksum ni d) = fs_name ni"
  by (simp add: exfatfs_update_file_entry_set_checksum_def)

lemma sector_is_allocated_finalize [simp]:
  "sector_is_allocated (exfatfs_add_name_to_dir_and_reset_info ni) = sector_is_allocated ni"
  by (simp add: exfatfs_add_name_to_dir_and_reset_info_def exfatfs_reset_name_info_def)

text \<open>
  C3. After the file entry handler has run, the allocation flag of the name under assembly
  is Allocated if and only if the accumulator holds a true sector allocation status (the
  value the oracle reported for the containing sector) and the type tag of the entry is the
  in-use File tag; otherwise, also for a deleted file tag in an allocated sector, it is
  Unallocated.
\<close>

theorem file_dentry_flag_alloc_iff_sector_and_tag:
  "(flags (fs_name (exfats_parse_file_dentry a_fatfs a_name_info a_dentry a_inum))
      = TSK_FS_NAME_FLAG_ALLOC) =
     (sector_is_allocated a_name_info \<noteq> 0 \<and>
      entry_type a_dentry = EXFATFS_DIR_ENTRY_TYPE_FILE)
   \<and> (flags (fs_name (exfats_parse_file_dentry a_fatfs a_name_info a_dentry a_inum))
      = TSK_FS_NAME_FLAG_UNALLOC) =
     (\<not> (sector_is_allocated a_name_info \<noteq> 0 \<and>
         entry_type a_dentry = EXFATFS_DIR_ENTRY_TYPE_FILE))"
  by (simp add: exfats_parse_file_dentry_def Let_def)


section \<open>Argument checks of the buffer parser\<close>

lemma sector_loop_no_sectors: "sector_loop ndebug fatfs buf addrs 0 0 st = Inr st"
  by (subst sector_loop.simps) simp

lemma fs_dir_finalize_initial:
  "fs_dir (exfatfs_add_name_to_dir_and_reset_info (name_info (initial_parse_state nm dir))) = dir"
  by (simp add: fs_dir_finalize initial_parse_state_def initial_name_info_def)

lemma parse_buf_missing_pointer:
  "a_fatfs = None \<or> a_fs_dir = None \<or> a_buf = None \<or> a_sector_addrs = None \<Longrightarrow>
   \<exists>dir. exfatfs_dent_parse_buf ndebug a_fatfs a_fs_dir a_buf a_buf_len a_sector_addrs =
     Returned TSK_ERR (Some TSK_ERR_FS_ARG) dir"
  by (auto simp: exfatfs_dent_parse_buf_def split: option.splits)

lemma parse_buf_negative_length:
  "a_buf_len < 0 \<Longrightarrow>
   exfatfs_dent_parse_buf True (Some fatfs) (Some dir) (Some buf) a_buf_len (Some addrs) =
     Returned TSK_ERR (Some TSK_ERR_FS_ARG) dir"
  by (simp add: exfatfs_dent_parse_buf_def)

text \<open>
  C5. Stated: a call with a missing pointer or a buffer length that is not strictly
  positive fails with an argument error, in particular a call with length 0.  The source
  asserts \<^verbatim>\<open>a_buf_len > 0\<close> and then tests \<^verbatim>\<open>a_buf_len < 0\<close>: with all pointers
  present and length 0 the call never reports an argument error.  With assertions it
  aborts; without them it parses no sector and returns \<^verbatim>\<open>TSK_OK\<close> with the directory
  unchanged (unless the allocation of the name object fails or the sector size is 0).
\<close>

theorem parse_buf_zero_length_is_no_argument_error:
  "exfatfs_dent_parse_buf ndebug (Some fatfs) (Some dir) (Some buf) 0 (Some addrs) =
     (if \<not> ndebug then Assert_Failed
      else case tsk_fs_name_alloc fatfs (EXFATFS_MAX_NAME_LEN_UTF8 fatfs) of
             None \<Rightarrow> Returned TSK_ERR None dir
           | Some a_fs_name \<Rightarrow>
               if ssize fatfs = 0 then Undefined_Behaviour else Returned TSK_OK None dir)"
  by (simp add: exfatfs_dent_parse_buf_def sector_loop_no_sectors fs_dir_finalize_initial
      split: option.splits)

section \<open>Inode addresses out of range\<close>

lemma parse_dentry_out_of_range:
  "\<not> fatfs_is_inum_in_range a_fatfs (base_inum_of_sector + of_nat dentry_index) \<Longrightarrow>
   parse_dentry ndebug a_fatfs a_buf base_inum_of_sector dentry_index st =
     Inl (Returned TSK_ERR None (fs_dir (name_info st)))"
  by (simp add: parse_dentry_def Let_def)

lemma sector_loop_base_out_of_range:
  "sector_index < num_sectors \<Longrightarrow> sector_index < length a_sector_addrs \<Longrightarrow>
   FATFS_SECT_2_INODE a_fatfs (a_sector_addrs ! sector_index) > last_inum a_fatfs \<Longrightarrow>
   sector_loop ndebug a_fatfs a_buf a_sector_addrs num_sectors sector_index st =
     Inl (Returned TSK_COR (Some TSK_ERR_FS_ARG) (fs_dir (name_info st)))"
  by (subst sector_loop.simps) (simp add: Let_def)

text \<open>
  C4. Stated: when a computed inode address, of a sector or of an entry, is beyond the
  valid range, the parse fails with the structural corruption code, distinct from the code
  of an argument error.  Evaluated on one sector of 16 empty entries at sector address 0,
  whose entries get the inode addresses 3 to 18: with the last valid inode address 3, the
  base address 3 is in range and the second entry's address 4 is not, and the call returns
  \<^verbatim>\<open>TSK_ERR\<close> with no error number; with the last valid address 2 the base address is
  out of range and the call returns \<^verbatim>\<open>TSK_COR\<close>; an argument error (a negative
  length, without assertions) returns \<^verbatim>\<open>TSK_ERR\<close> as well.
\<close>

theorem entry_inum_out_of_range_returns_err_not_cor:
  "exfatfs_dent_parse_buf True (Some (example_fatfs 3)) (Some [])
     (Some (replicate 16 (dentry_of []))) 512 (Some [0]) = Returned TSK_ERR None []
   \<and> exfatfs_dent_parse_buf True (Some (example_fatfs 2)) (Some [])
     (Some (replicate 16 (dentry_of []))) 512 (Some [0]) =
       Returned TSK_COR (Some TSK_ERR_FS_ARG) []
   \<and> exfatfs_dent_parse_buf True (Some (example_fatfs 3)) (Some [])
     (Some (replicate 16 (dentry_of []))) (- 1) (Some [0]) =
       Returned TSK_ERR (Some TSK_ERR_FS_ARG) []"
  by code_simp

section \<open>The special file handler's assertion\<close>

lemma dispatch_tex_fat_aborts:
  "dispatch_dentry False a_fatfs EXFATFS_DIR_ENTRY_TYPE_TEX_FAT
     (EXFATFS_DIR_ENTRY_TYPE_TEX_FAT # bs) current_inum st = Inl Assert_Failed"
  by (simp add: dispatch_dentry_def call_handler_def parse_special_file_dentry_asserts_def
      dentry_type_defs)

lemma parse_buf_tex_fat_example:
  "exfatfs_dent_parse_buf False (Some (example_fatfs 1000)) (Some [])
     (Some (dentry_of [0xA1] # replicate 15 (dentry_of []))) 512 (Some [0]) = Assert_Failed
   \<and> exfatfs_dent_parse_buf True (Some (example_fatfs 1000)) (Some [])
     (Some (dentry_of [0xA1] # replicate 15 (dentry_of []))) 512 (Some [0]) =
       Returned TSK_OK None
         [\<lparr>nr_name = ''$TEX_FAT'', nr_meta_addr = 3, nr_type = TSK_FS_NAME_TYPE_UNDEF,
           nr_flags = TSK_FS_NAME_FLAG_ALLOC\<rparr>]"
  by code_simp

text \<open>
  C9. Stated: every entry the parser hands to the special file handler satisfies the
  handler's entry type assertion (volume GUID, allocation bitmap, up-case table or
  allocation control table), so no TexFAT entry reaches it.  The \<^verbatim>\<open>switch\<close> of the
  parser sends an entry classified as TexFAT to that handler: for every entry whose tag is
  the TexFAT tag the call fails the assertion in a build with assertions.  On a sector that
  starts with such an entry the parse aborts; without assertions the handler's own
  \<^verbatim>\<open>switch\<close> names the entry \<^verbatim>\<open>$TEX_FAT\<close>.
\<close>

theorem tex_fat_entry_fails_special_handler_assertion:
  "dispatch_dentry False a_fatfs EXFATFS_DIR_ENTRY_TYPE_TEX_FAT
     (EXFATFS_DIR_ENTRY_TYPE_TEX_FAT # bs) current_inum st = Inl Assert_Failed
   \<and> exfatfs_dent_parse_buf False (Some (example_fatfs 1000)) (Some [])
     (Some (dentry_of [0xA1] # replicate 15 (dentry_of []))) 512 (Some [0]) = Assert_Failed
   \<and> exfatfs_dent_parse_buf True (Some (example_fatfs 1000)) (Some [])
     (Some (dentry_of [0xA1] # replicate 15 (dentry_of []))) 512 (Some [0]) =
       Returned TSK_OK None
         [\<lparr>nr_name = ''$TEX_FAT'', nr_meta_addr = 3, nr_type = TSK_FS_NAME_TYPE_UNDEF,
           nr_flags = TSK_FS_NAME_FLAG_ALLOC\<rparr>]"
  using dispatch_tex_fat_aborts parse_buf_tex_fat_example by simp


section \<open>The corrupt directory flag\<close>

lemma dispatch_file:
  "t = EXFATFS_DIR_ENTRY_TYPE_FILE \<or> t = EXFATFS_DIR_ENTRY_TYPE_DELETED_FILE \<Longrightarrow>
   dispatch_dentry ndebug a_fatfs t d inum st =
     call_handler ndebug (parse_file_dentry_asserts a_fatfs (name_info st) d inum) st
       (exfats_parse_file_dentry a_fatfs (name_info st) d inum)"
  by (simp add: dispatch_dentry_def Let_def)

lemma dispatch_stream:
  "t = EXFATFS_DIR_ENTRY_TYPE_FILE_STREAM \<or> t = EXFATFS_DIR_ENTRY_TYPE_DELETED_FILE_STREAM \<Longrightarrow>
   dispatch_dentry ndebug a_fatfs t d inum st =
     call_handler ndebug (parse_file_stream_dentry_asserts a_fatfs (name_info st) d inum) st
       (exfats_parse_file_stream_dentry a_fatfs (name_info st) d inum)"
  by (auto simp add: dispatch_dentry_def Let_def dentry_type_defs)

lemma dispatch_name:
  "t = EXFATFS_DIR_ENTRY_TYPE_FILE_NAME \<or> t = EXFATFS_DIR_ENTRY_TYPE_DELETED_FILE_NAME \<Longrightarrow>
   dispatch_dentry ndebug a_fatfs t d inum st =
     call_handler ndebug (parse_file_name_dentry_asserts a_fatfs (name_info st) d inum) st
       (exfats_parse_file_name_dentry a_fatfs (name_info st) d inum)"
  by (auto simp add: dispatch_dentry_def Let_def dentry_type_defs)

lemma dispatch_vol_label:
  "t = EXFATFS_DIR_ENTRY_TYPE_VOLUME_LABEL_EMPTY \<or> t = EXFATFS_DIR_ENTRY_TYPE_VOLUME_LABEL \<Longrightarrow>
   dispatch_dentry ndebug a_fatfs t d inum st =
     (if \<not> ndebug \<and> \<not> parse_vol_label_dentry_asserts a_fatfs (name_info st) d inum
      then Inl Assert_Failed
      else if \<not> vol_label_source_in_buffer d then Inl Undefined_Behaviour
      else Inr (st\<lparr>name_info := exfats_parse_vol_label_dentry a_fatfs (name_info st) d inum\<rparr>))"
  by (auto simp add: dispatch_dentry_def Let_def dentry_type_defs)

lemma dispatch_special:
  "t = EXFATFS_DIR_ENTRY_TYPE_VOLUME_GUID \<or> t = EXFATFS_DIR_ENTRY_TYPE_ALLOC_BITMAP \<or>
   t = EXFATFS_DIR_ENTRY_TYPE_UPCASE_TABLE \<or> t = EXFATFS_DIR_ENTRY_TYPE_TEX_FAT \<or>
   t = EXFATFS_DIR_ENTRY_TYPE_ACT \<Longrightarrow>
   dispatch_dentry ndebug a_fatfs t d inum st =
     call_handler ndebug (parse_special_file_dentry_asserts a_fatfs (name_info st) d inum) st
       (exfats_parse_special_file_dentry a_fatfs (name_info st) d inum)"
  by (auto simp add: dispatch_dentry_def Let_def dentry_type_defs)

lemma dispatch_default:
  "\<not> has_handler t \<Longrightarrow>
   dispatch_dentry ndebug a_fatfs t d inum st =
     call_handler ndebug (name_info_asserts a_fatfs (name_info st))
       (if entries_count st = 4 \<and> invalid_entries_count st + 1 = 4
        then st\<lparr>invalid_entries_count := invalid_entries_count st + 1, is_corrupt_dir := True\<rparr>
        else st\<lparr>invalid_entries_count := invalid_entries_count st + 1\<rparr>)
       (exfatfs_add_name_to_dir_and_reset_info (name_info st))"
  unfolding dispatch_dentry_def Let_def has_handler_def
  by simp

lemma dispatch_handled:
  assumes "has_handler t"
  shows "dispatch_dentry ndebug a_fatfs t d inum st = Inl Undefined_Behaviour \<or>
         (\<exists>b ni. dispatch_dentry ndebug a_fatfs t d inum st = call_handler ndebug b st ni)"
proof -
  from assms consider
      "t = EXFATFS_DIR_ENTRY_TYPE_FILE \<or> t = EXFATFS_DIR_ENTRY_TYPE_DELETED_FILE"
    | "t = EXFATFS_DIR_ENTRY_TYPE_FILE_STREAM \<or> t = EXFATFS_DIR_ENTRY_TYPE_DELETED_FILE_STREAM"
    | "t = EXFATFS_DIR_ENTRY_TYPE_FILE_NAME \<or> t = EXFATFS_DIR_ENTRY_TYPE_DELETED_FILE_NAME"
    | "t = EXFATFS_DIR_ENTRY_TYPE_VOLUME_LABEL_EMPTY \<or> t = EXFATFS_DIR_ENTRY_TYPE_VOLUME_LABEL"
    | "t = EXFATFS_DIR_ENTRY_TYPE_VOLUME_GUID \<or> t = EXFATFS_DIR_ENTRY_TYPE_ALLOC_BITMAP \<or>
       t = EXFATFS_DIR_ENTRY_TYPE_UPCASE_TABLE \<or> t = EXFATFS_DIR_ENTRY_TYPE_TEX_FAT \<or>
       t = EXFATFS_DIR_ENTRY_TYPE_ACT"
    unfolding has_handler_def by blast
  then show ?thesis
  proof cases
    case 1 from dispatch_file [OF 1] show ?thesis by blast
  next
    case 2 from dispatch_stream [OF 2] show ?thesis by blast
  next
    case 3 from dispatch_name [OF 3] show ?thesis by blast
  next
    case 4
    have "dispatch_dentry ndebug a_fatfs t d inum st = Inl Undefined_Behaviour \<or>
          dispatch_dentry ndebug a_fatfs t d inum st =
            call_handler ndebug (parse_vol_label_dentry_asserts a_fatfs (name_info st) d inum) st
              (exfats_parse_vol_label_dentry a_fatfs (name_info st) d inum)"
      by (simp add: dispatch_vol_label [OF 4] call_handler_def)
    then show ?thesis by blast
  next
    case 5 from dispatch_special [OF 5] show ?thesis by blast
  qed
qed

lemma dispatch_dentry_counters:
  assumes "dispatch_dentry ndebug a_fatfs t d inum st = Inr st'"
  shows "entries_count st' = entries_count st \<and> classified st' = classified st \<and>
         dentry st' = dentry st \<and>
         invalid_entries_count st' = invalid_entries_count st + (if has_handler t then 0 else 1) \<and>
         is_corrupt_dir st' =
           (is_corrupt_dir st \<or>
            (\<not> has_handler t \<and> entries_count st = 4 \<and> invalid_entries_count st + 1 = 4))"
proof (cases "has_handler t")
  case True
  from dispatch_handled [OF True, of ndebug a_fatfs d inum st] assms obtain b ni where
    "dispatch_dentry ndebug a_fatfs t d inum st = call_handler ndebug b st ni" by auto
  with assms True show ?thesis
    by (auto simp add: call_handler_def split: if_splits)
next
  case False
  from assms False show ?thesis
    by (auto simp add: dispatch_default call_handler_def split: if_splits)
qed

lemma length_filter_eq_length: "length (filter P xs) = length xs \<longleftrightarrow> list_all P xs"
proof (induction xs)
  case Nil
  then show ?case by simp
next
  case (Cons x xs)
  have le: "length (filter P xs) \<le> length xs" by (rule length_filter_le)
  show ?case
  proof (cases "P x")
    case True
    with Cons show ?thesis by simp
  next
    case False
    from le have "length (filter P xs) \<noteq> Suc (length xs)" by linarith
    with False show ?thesis by simp
  qed
qed

lemma first_four_append:
  "first_four_unclassifiable (h @ [c]) \<longleftrightarrow>
     first_four_unclassifiable h \<or>
     (length h = 3 \<and> unclassifiable c \<and> length (filter unclassifiable h) = 3)"
proof (cases "length h" "3::nat" rule: linorder_cases)
  case less
  then show ?thesis by (simp add: first_four_unclassifiable_def)
next
  case equal
  then have "list_all unclassifiable h \<longleftrightarrow> length (filter unclassifiable h) = 3"
    using length_filter_eq_length [of unclassifiable h] by simp
  with equal show ?thesis by (auto simp add: first_four_unclassifiable_def)
next
  case greater
  then show ?thesis by (simp add: first_four_unclassifiable_def)
qed

lemma hints_append:
  assumes "list_all (hint_follows_flag h) [0..<length h]"
    and "fst (snd c) = (\<not> first_four_unclassifiable h \<and> snd (snd c) \<noteq> 0)"
  shows "list_all (hint_follows_flag (h @ [c])) [0..<length (h @ [c])]"
  using assms by (auto simp: list_all_iff hint_follows_flag_def nth_append)

lemma parse_dentry_inv:
  assumes "corrupt_flag_inv st"
    and "parse_dentry ndebug a_fatfs a_buf base dentry_index st = Inr st'"
  shows "corrupt_flag_inv st'"
proof -
  define t where "t = exfatfs_is_dentry a_fatfs (concat (drop (dentry st) a_buf))
     (classifier_hint (st\<lparr>entries_count := entries_count st + 1\<rparr>))"
  define c where "c = (t, classifier_hint (st\<lparr>entries_count := entries_count st + 1\<rparr>),
     sector_is_allocated (name_info st))"
  define st2 where "st2 = st\<lparr>entries_count := entries_count st + 1,
     classified := classified st @ [c]\<rparr>"
  from assms(2) have d: "dispatch_dentry ndebug a_fatfs t (concat (drop (dentry st) a_buf))
      (base + of_nat dentry_index) st2 = Inr st'"
    by (simp add: parse_dentry_def Let_def t_def c_def st2_def split: if_splits)
  note r = dispatch_dentry_counters [OF d]
  have u: "unclassifiable c = (\<not> has_handler t)"
    by (simp add: unclassifiable_def c_def)
  from assms(1) have e: "entries_count st = int (length (classified st))"
    and i: "invalid_entries_count st = int (length (filter unclassifiable (classified st)))"
    and f: "is_corrupt_dir st = first_four_unclassifiable (classified st)"
    and h: "list_all (hint_follows_flag (classified st)) [0..<length (classified st)]"
    by (simp_all add: corrupt_flag_inv_def)
  have hc: "fst (snd c) = (\<not> first_four_unclassifiable (classified st) \<and> snd (snd c) \<noteq> 0)"
    by (simp add: c_def classifier_hint_def f)
  have 1: "entries_count st' = int (length (classified st'))"
    using r e by (simp add: st2_def)
  have 2: "invalid_entries_count st' = int (length (filter unclassifiable (classified st')))"
    using r i u by (simp add: st2_def)
  have 3: "is_corrupt_dir st' = first_four_unclassifiable (classified st')"
    using r e i f u by (auto simp add: st2_def first_four_append)
  have 4: "list_all (hint_follows_flag (classified st')) [0..<length (classified st')]"
    using r hints_append [OF h hc] by (simp add: st2_def)
  from 1 2 3 4 show ?thesis
    by (simp add: corrupt_flag_inv_def)
qed

lemma corrupt_flag_inv_dentry_update [simp]:
  "corrupt_flag_inv (st\<lparr>dentry := n\<rparr>) = corrupt_flag_inv st"
  by (simp add: corrupt_flag_inv_def)

lemma corrupt_flag_inv_name_info_update [simp]:
  "corrupt_flag_inv (st\<lparr>name_info := ni\<rparr>) = corrupt_flag_inv st"
  by (simp add: corrupt_flag_inv_def)

lemma dentry_loop_inv:
  "corrupt_flag_inv st \<Longrightarrow>
   dentry_loop ndebug a_fatfs a_buf base dentry_index st = Inr st' \<Longrightarrow> corrupt_flag_inv st'"
proof (induction ndebug a_fatfs a_buf base dentry_index st rule: dentry_loop.induct)
  case (1 ndebug a_fatfs a_buf base dentry_index st)
  show ?case
  proof (cases "dentry_index < dentry_cnt_se a_fatfs")
    case True
    with "1.prems"(2) obtain st1 where
      p: "parse_dentry ndebug a_fatfs a_buf base dentry_index st = Inr st1" and
      l: "dentry_loop ndebug a_fatfs a_buf base (dentry_index + 1) (st1\<lparr>dentry := dentry st1 + 1\<rparr>) = Inr st'"
      by (subst (asm) dentry_loop.simps) (auto split: sum.splits)
    from parse_dentry_inv [OF "1.prems"(1) p] have "corrupt_flag_inv (st1\<lparr>dentry := dentry st1 + 1\<rparr>)"
      by simp
    with "1.IH" [OF True p] l show ?thesis by simp
  next
    case False
    with "1.prems" show ?thesis
      by (subst (asm) dentry_loop.simps) simp
  qed
qed

lemma sector_loop_inv:
  "corrupt_flag_inv st \<Longrightarrow>
   sector_loop ndebug a_fatfs a_buf a_sector_addrs num_sectors sector_index st = Inr st' \<Longrightarrow>
   corrupt_flag_inv st'"
proof (induction ndebug a_fatfs a_buf a_sector_addrs num_sectors sector_index st rule: sector_loop.induct)
  case (1 ndebug a_fatfs a_buf a_sector_addrs num_sectors sector_index st)
  define st1 where "st1 = st\<lparr>name_info := (name_info st)
       \<lparr>sector_is_allocated := fatfs_is_sectalloc a_fatfs (a_sector_addrs ! sector_index)\<rparr>\<rparr>"
  have i1: "corrupt_flag_inv st1" using "1.prems"(1) by (simp add: st1_def)
  show ?case
  proof (cases "sector_index < num_sectors")
    case True
    from "1.prems"(2) True have a: "sector_index < length a_sector_addrs"
      by (subst (asm) sector_loop.simps) (simp split: if_splits)
    from "1.prems"(2) True a have b: "\<not> FATFS_SECT_2_INODE a_fatfs (a_sector_addrs ! sector_index) > last_inum a_fatfs"
      by (subst (asm) sector_loop.simps) (simp add: Let_def split: if_splits)
    show ?thesis
    proof (cases "fatfs_is_sectalloc a_fatfs (a_sector_addrs ! sector_index) = - 1")
      case skip: True
      from "1.prems"(2) True a b skip have
        "sector_loop ndebug a_fatfs a_buf a_sector_addrs num_sectors (sector_index + 1) st1 = Inr st'"
        by (subst (asm) sector_loop.simps) (simp add: Let_def st1_def)
      with "1.IH"(1) [OF True _ refl _ refl, of ] True a b skip i1 show ?thesis
        by (simp add: st1_def)
    next
      case noskip: False
      from "1.prems"(2) True a b noskip obtain st2 where
        d: "dentry_loop ndebug a_fatfs a_buf (FATFS_SECT_2_INODE a_fatfs (a_sector_addrs ! sector_index)) 0 st1 = Inr st2" and
        l: "sector_loop ndebug a_fatfs a_buf a_sector_addrs num_sectors (sector_index + 1) st2 = Inr st'"
        by (subst (asm) sector_loop.simps) (auto simp add: Let_def st1_def split: sum.splits)
      from dentry_loop_inv [OF i1 d] have "corrupt_flag_inv st2" .
      with "1.IH"(2) [OF True _ refl _ refl _ _ ] True a b noskip d l show ?thesis
        by (simp add: st1_def)
    qed
  next
    case False
    with "1.prems" show ?thesis
      by (subst (asm) sector_loop.simps) simp
  qed
qed

lemma initial_inv: "corrupt_flag_inv (initial_parse_state nm dir)"
  by (simp add: corrupt_flag_inv_def initial_parse_state_def first_four_unclassifiable_def)

lemma calls_append:
  "expected_classifier_calls f b (as @ bs) h =
     expected_classifier_calls f b bs (expected_classifier_calls f b as h)"
  by (induction as arbitrary: h) simp_all

lemma alloc_update_checksum:
  "sector_is_allocated (exfatfs_update_file_entry_set_checksum ni d) = sector_is_allocated ni"
  by (simp add: exfatfs_update_file_entry_set_checksum_def)

lemma alloc_reset:
  "sector_is_allocated (exfatfs_reset_name_info ni) = sector_is_allocated ni"
  by (simp add: exfatfs_reset_name_info_def)

lemma alloc_if:
  "sector_is_allocated a = x \<Longrightarrow> sector_is_allocated b = x \<Longrightarrow>
   sector_is_allocated (if c then a else b) = x"
  by simp

lemma alloc_file:
  "sector_is_allocated (exfats_parse_file_dentry f ni d i) = sector_is_allocated ni"
  by (simp add: exfats_parse_file_dentry_def Let_def alloc_update_checksum)

lemma alloc_stream:
  "sector_is_allocated (exfats_parse_file_stream_dentry f ni d i) = sector_is_allocated ni"
  by (simp add: exfats_parse_file_stream_dentry_def Let_def alloc_update_checksum)

lemma alloc_name:
  "sector_is_allocated (exfats_parse_file_name_dentry f ni d i) = sector_is_allocated ni"
  unfolding exfats_parse_file_name_dentry_def Let_def case_prod_beta
  by (intro alloc_if) simp_all

lemma alloc_vol_label:
  "sector_is_allocated (exfats_parse_vol_label_dentry f ni d i) = sector_is_allocated ni"
  unfolding exfats_parse_vol_label_dentry_def Let_def case_prod_beta
  by (intro alloc_if) (simp_all add: alloc_reset)

lemma alloc_special:
  "sector_is_allocated (exfats_parse_special_file_dentry f ni d i) = sector_is_allocated ni"
  by (simp add: exfats_parse_special_file_dentry_def Let_def split: option.splits)

lemma dispatch_dentry_alloc:
  assumes "dispatch_dentry ndebug a_fatfs t d inum st = Inr st'"
  shows "sector_is_allocated (name_info st') = sector_is_allocated (name_info st)"
proof (cases "has_handler t")
  case True
  then consider
      "t = EXFATFS_DIR_ENTRY_TYPE_FILE \<or> t = EXFATFS_DIR_ENTRY_TYPE_DELETED_FILE"
    | "t = EXFATFS_DIR_ENTRY_TYPE_FILE_STREAM \<or> t = EXFATFS_DIR_ENTRY_TYPE_DELETED_FILE_STREAM"
    | "t = EXFATFS_DIR_ENTRY_TYPE_FILE_NAME \<or> t = EXFATFS_DIR_ENTRY_TYPE_DELETED_FILE_NAME"
    | "t = EXFATFS_DIR_ENTRY_TYPE_VOLUME_LABEL_EMPTY \<or> t = EXFATFS_DIR_ENTRY_TYPE_VOLUME_LABEL"
    | "t = EXFATFS_DIR_ENTRY_TYPE_VOLUME_GUID \<or> t = EXFATFS_DIR_ENTRY_TYPE_ALLOC_BITMAP \<or>
       t = EXFATFS_DIR_ENTRY_TYPE_UPCASE_TABLE \<or> t = EXFATFS_DIR_ENTRY_TYPE_TEX_FAT \<or>
       t = EXFATFS_DIR_ENTRY_TYPE_ACT"
    unfolding has_handler_def by blast
  then show ?thesis
  proof cases
    case 1 with assms show ?thesis
      by (auto simp add: dispatch_file [OF 1] call_handler_def alloc_file split: if_splits)
  next
    case 2 with assms show ?thesis
      by (auto simp add: dispatch_stream [OF 2] call_handler_def alloc_stream split: if_splits)
  next
    case 3 with assms show ?thesis
      by (auto simp add: dispatch_name [OF 3] call_handler_def alloc_name split: if_splits)
  next
    case 4 with assms show ?thesis
      by (auto simp add: dispatch_vol_label [OF 4] alloc_vol_label split: if_splits)
  next
    case 5 with assms show ?thesis
      by (auto simp add: dispatch_special [OF 5] call_handler_def alloc_special split: if_splits)
  qed
next
  case False
  with assms show ?thesis
    by (auto simp add: dispatch_default call_handler_def split: if_splits)
qed

lemma parse_dentry_calls:
  assumes "calls_inv st"
    and "parse_dentry ndebug a_fatfs a_buf base dentry_index st = Inr st'"
  shows "classified st' =
           expected_classifier_calls a_fatfs a_buf [sector_is_allocated (name_info st)]
             (classified st) \<and>
         sector_is_allocated (name_info st') = sector_is_allocated (name_info st) \<and>
         dentry st' = dentry st \<and> corrupt_flag_inv st'"
proof -
  define t where "t = exfatfs_is_dentry a_fatfs (concat (drop (dentry st) a_buf))
     (classifier_hint (st\<lparr>entries_count := entries_count st + 1\<rparr>))"
  define c where "c = (t, classifier_hint (st\<lparr>entries_count := entries_count st + 1\<rparr>),
     sector_is_allocated (name_info st))"
  define st2 where "st2 = st\<lparr>entries_count := entries_count st + 1,
     classified := classified st @ [c]\<rparr>"
  from assms(2) have d: "dispatch_dentry ndebug a_fatfs t (concat (drop (dentry st) a_buf))
      (base + of_nat dentry_index) st2 = Inr st'"
    by (simp add: parse_dentry_def Let_def t_def c_def st2_def split: if_splits)
  note r = dispatch_dentry_counters [OF d]
  note a = dispatch_dentry_alloc [OF d]
  from assms(1) have f: "is_corrupt_dir st = first_four_unclassifiable (classified st)"
    and l: "dentry st = length (classified st)"
    by (simp_all add: calls_inv_def corrupt_flag_inv_def)
  have "classified st' = classified st @ [c]" using r by (simp add: st2_def)
  moreover have "c = (exfatfs_is_dentry a_fatfs (concat (drop (length (classified st)) a_buf))
         (\<not> first_four_unclassifiable (classified st) \<and> sector_is_allocated (name_info st) \<noteq> 0),
       \<not> first_four_unclassifiable (classified st) \<and> sector_is_allocated (name_info st) \<noteq> 0,
       sector_is_allocated (name_info st))"
    by (simp add: c_def t_def classifier_hint_def f l)
  ultimately have 1: "classified st' =
      expected_classifier_calls a_fatfs a_buf [sector_is_allocated (name_info st)] (classified st)"
    by simp
  have 2: "sector_is_allocated (name_info st') = sector_is_allocated (name_info st)"
    using a by (simp add: st2_def)
  have 3: "dentry st' = dentry st" using r by (simp add: st2_def)
  from assms(1) have "corrupt_flag_inv st" by (simp add: calls_inv_def)
  from parse_dentry_inv [OF this assms(2)] 1 2 3 show ?thesis by simp
qed

lemma dentry_loop_calls:
  "calls_inv st \<Longrightarrow>
   dentry_loop ndebug a_fatfs a_buf base dentry_index st = Inr st' \<Longrightarrow>
   calls_inv st' \<and>
   classified st' =
     expected_classifier_calls a_fatfs a_buf
       (replicate (dentry_cnt_se a_fatfs - dentry_index) (sector_is_allocated (name_info st)))
       (classified st)"
proof (induction ndebug a_fatfs a_buf base dentry_index st rule: dentry_loop.induct)
  case (1 ndebug a_fatfs a_buf base dentry_index st)
  show ?case
  proof (cases "dentry_index < dentry_cnt_se a_fatfs")
    case True
    with "1.prems"(2) obtain st1 where
      p: "parse_dentry ndebug a_fatfs a_buf base dentry_index st = Inr st1" and
      l: "dentry_loop ndebug a_fatfs a_buf base (dentry_index + 1) (st1\<lparr>dentry := dentry st1 + 1\<rparr>) = Inr st'"
      by (subst (asm) dentry_loop.simps) (auto split: sum.splits)
    note s = parse_dentry_calls [OF "1.prems"(1) p]
    from "1.prems"(1) have d: "dentry st = length (classified st)" by (simp add: calls_inv_def)
    from s d have i: "calls_inv (st1\<lparr>dentry := dentry st1 + 1\<rparr>)"
      by (simp add: calls_inv_def)
    from True have r: "replicate (dentry_cnt_se a_fatfs - dentry_index) (sector_is_allocated (name_info st)) =
        sector_is_allocated (name_info st) #
        replicate (dentry_cnt_se a_fatfs - (dentry_index + 1)) (sector_is_allocated (name_info st))"
      by (cases "dentry_cnt_se a_fatfs - dentry_index") simp_all
    from "1.IH" [OF True p i l] s show ?thesis
      by (simp add: r)
  next
    case False
    with "1.prems" show ?thesis
      by (subst (asm) dentry_loop.simps) simp
  qed
qed

lemma entry_allocs_Cons:
  "entry_allocs f (s # ss) =
     (if fatfs_is_sectalloc f s = - 1 then []
      else replicate (dentry_cnt_se f) (fatfs_is_sectalloc f s)) @ entry_allocs f ss"
  by (simp add: entry_allocs_def)

lemma calls_inv_alloc_update [simp]:
  "calls_inv (st\<lparr>name_info := ni\<rparr>) = calls_inv st"
  by (simp add: calls_inv_def)

lemma sector_loop_calls:
  "calls_inv st \<Longrightarrow>
   sector_loop ndebug a_fatfs a_buf a_sector_addrs num_sectors sector_index st = Inr st' \<Longrightarrow>
   classified st' =
     expected_classifier_calls a_fatfs a_buf
       (entry_allocs a_fatfs (drop sector_index (take num_sectors a_sector_addrs)))
       (classified st)"
proof (induction ndebug a_fatfs a_buf a_sector_addrs num_sectors sector_index st rule: sector_loop.induct)
  case (1 ndebug a_fatfs a_buf a_sector_addrs num_sectors sector_index st)
  define st1 where "st1 = st\<lparr>name_info := (name_info st)
       \<lparr>sector_is_allocated := fatfs_is_sectalloc a_fatfs (a_sector_addrs ! sector_index)\<rparr>\<rparr>"
  have i1: "calls_inv st1" using "1.prems"(1) by (simp add: st1_def)
  have c1: "classified st1 = classified st" by (simp add: st1_def)
  show ?case
  proof (cases "sector_index < num_sectors")
    case True
    from "1.prems"(2) True have a: "sector_index < length a_sector_addrs"
      by (subst (asm) sector_loop.simps) (simp split: if_splits)
    from "1.prems"(2) True a have b: "\<not> FATFS_SECT_2_INODE a_fatfs (a_sector_addrs ! sector_index) > last_inum a_fatfs"
      by (subst (asm) sector_loop.simps) (simp add: Let_def split: if_splits)
    from True a have dr: "drop sector_index (take num_sectors a_sector_addrs) =
        a_sector_addrs ! sector_index # drop (sector_index + 1) (take num_sectors a_sector_addrs)"
      using Cons_nth_drop_Suc [of sector_index "take num_sectors a_sector_addrs"] by simp
    show ?thesis
    proof (cases "fatfs_is_sectalloc a_fatfs (a_sector_addrs ! sector_index) = - 1")
      case skip: True
      from "1.prems"(2) True a b skip have
        l: "sector_loop ndebug a_fatfs a_buf a_sector_addrs num_sectors (sector_index + 1) st1 = Inr st'"
        by (subst (asm) sector_loop.simps) (simp add: Let_def st1_def)
      from "1.IH"(1) [OF True _ refl _ refl, of ] True a b skip i1 l
      have "classified st' = expected_classifier_calls a_fatfs a_buf
         (entry_allocs a_fatfs (drop (sector_index + 1) (take num_sectors a_sector_addrs)))
         (classified st1)"
        by (simp add: st1_def)
      with skip show ?thesis
        by (simp add: dr entry_allocs_Cons c1)
    next
      case noskip: False
      from "1.prems"(2) True a b noskip obtain st2 where
        d: "dentry_loop ndebug a_fatfs a_buf (FATFS_SECT_2_INODE a_fatfs (a_sector_addrs ! sector_index)) 0 st1 = Inr st2" and
        l: "sector_loop ndebug a_fatfs a_buf a_sector_addrs num_sectors (sector_index + 1) st2 = Inr st'"
        by (subst (asm) sector_loop.simps) (auto simp add: Let_def st1_def split: sum.splits)
      note dl = dentry_loop_calls [OF i1 d]
      from dl have i2: "calls_inv st2" by simp
      from "1.IH"(2) [OF True _ refl _ refl _ _ ] True a b noskip d l i2
      have "classified st' = expected_classifier_calls a_fatfs a_buf
         (entry_allocs a_fatfs (drop (sector_index + 1) (take num_sectors a_sector_addrs)))
         (classified st2)"
        by (simp add: st1_def)
      with dl noskip show ?thesis
        by (simp add: dr entry_allocs_Cons calls_append c1 st1_def)
    qed
  next
    case False
    with "1.prems" show ?thesis
      by (subst (asm) sector_loop.simps) (simp add: entry_allocs_def)
  qed
qed

lemma initial_calls_inv: "calls_inv (initial_parse_state nm dir)"
  by (simp add: calls_inv_def initial_inv) (simp add: initial_parse_state_def)

lemma first_four_take:
  "first_four_unclassifiable (take k h) \<Longrightarrow> first_four_unclassifiable h"
  by (auto simp add: first_four_unclassifiable_def min_def split: if_splits)

text \<open>
  C8. In a parse that runs through its sectors, the corrupt directory flag is set exactly
  when the first four entries processed (the first four calls of the classifier) were all
  unclassifiable.  For every call of the classifier, the hint it was given is the sector's
  allocation status and-ed with the negation of that condition on the calls before it: so
  from the fifth processed entry on, once the first four were unclassifiable, every call
  gets the hint 0, also in allocated sectors, and the flag is never cleared.

  The calls are pinned to the arguments of the parse: the sequence of the calls the parser
  made, each with the type it returned and dispatched on, is the sequence
  \<open>expected_classifier_calls\<close> computes from the file system, the buffer and the sector
  addresses, in which the \<open>k\<close>-th call is the file system's classifier applied to the
  \<open>k\<close>-th entry of the buffer and to that hint.  So the flag at the end is set exactly
  when the first four of those calls return a type without handler, and once the first four
  calls of any prefix of the history were unclassifiable the flag is set at the end.
\<close>

theorem corrupt_flag_iff_first_four_unclassifiable_and_sticky:
  assumes "sector_loop ndebug a_fatfs a_buf a_sector_addrs num_sectors 0
             (initial_parse_state a_fs_name a_fs_dir) = Inr st"
  shows "is_corrupt_dir st = first_four_unclassifiable (classified st) \<and>
         list_all (hint_follows_flag (classified st)) [0..<length (classified st)] \<and>
         entries_count st = int (length (classified st)) \<and>
         invalid_entries_count st = int (length (filter unclassifiable (classified st))) \<and>
         classified st =
           expected_classifier_calls a_fatfs a_buf
             (entry_allocs a_fatfs (take num_sectors a_sector_addrs)) [] \<and>
         is_corrupt_dir st =
           first_four_unclassifiable
             (expected_classifier_calls a_fatfs a_buf
                (entry_allocs a_fatfs (take num_sectors a_sector_addrs)) []) \<and>
         (\<forall>k. first_four_unclassifiable (take k (classified st)) \<longrightarrow> is_corrupt_dir st)"
proof -
  from sector_loop_inv [OF initial_inv assms] have i: "corrupt_flag_inv st" .
  from sector_loop_calls [OF initial_calls_inv assms]
  have c: "classified st =
      expected_classifier_calls a_fatfs a_buf
        (entry_allocs a_fatfs (take num_sectors a_sector_addrs)) []"
    by (simp add: initial_parse_state_def)
  from i have f: "is_corrupt_dir st = first_four_unclassifiable (classified st)"
    by (simp add: corrupt_flag_inv_def)
  from f first_four_take
  have s: "\<forall>k. first_four_unclassifiable (take k (classified st)) \<longrightarrow> is_corrupt_dir st"
    by blast
  from c f have e: "is_corrupt_dir st =
      first_four_unclassifiable
        (expected_classifier_calls a_fatfs a_buf
           (entry_allocs a_fatfs (take num_sectors a_sector_addrs)) [])"
    by simp
  from i c e s show ?thesis
    by (simp add: corrupt_flag_inv_def)
qed

theorem corrupt_flag_example:
  "case sector_loop True careful_fatfs corrupt_dir_buf [0] 1 0
          (initial_parse_state (the (example_name_alloc 1024)) []) of
     Inl out \<Rightarrow> False
   | Inr st \<Rightarrow>
       is_corrupt_dir st \<and> first_four_unclassifiable (classified st) \<and>
       list_all (hint_follows_flag (classified st)) [0..<length (classified st)] \<and>
       classified st =
         expected_classifier_calls careful_fatfs corrupt_dir_buf
           (entry_allocs careful_fatfs (take 1 [0])) [] \<and>
       map (\<lambda>c. fst (snd c)) (classified st) = replicate 4 True @ replicate 12 False \<and>
       map fst (classified st) =
         replicate 5 EXFATFS_DIR_ENTRY_TYPE_NONE @
         [EXFATFS_DIR_ENTRY_TYPE_FILE_STREAM, EXFATFS_DIR_ENTRY_TYPE_FILE_NAME] @
         replicate 9 EXFATFS_DIR_ENTRY_TYPE_NONE \<and>
       careful_is_dentry (corrupt_dir_buf ! 4) True = EXFATFS_DIR_ENTRY_TYPE_FILE \<and>
       strlen (name (fs_name (name_info st))) = 0 \<and> fs_dir (name_info st) = []"
proof -
  have run: "case sector_loop True careful_fatfs corrupt_dir_buf [0] 1 0
          (initial_parse_state (the (example_name_alloc 1024)) []) of
     Inl out \<Rightarrow> False
   | Inr st \<Rightarrow> is_corrupt_dir st \<and>
       map (\<lambda>c. fst (snd c)) (classified st) = replicate 4 True @ replicate 12 False \<and>
       map fst (classified st) =
         replicate 5 EXFATFS_DIR_ENTRY_TYPE_NONE @
         [EXFATFS_DIR_ENTRY_TYPE_FILE_STREAM, EXFATFS_DIR_ENTRY_TYPE_FILE_NAME] @
         replicate 9 EXFATFS_DIR_ENTRY_TYPE_NONE \<and>
       careful_is_dentry (corrupt_dir_buf ! 4) True = EXFATFS_DIR_ENTRY_TYPE_FILE \<and>
       strlen (name (fs_name (name_info st))) = 0 \<and> fs_dir (name_info st) = []"
    by code_simp
  then obtain st where
    st: "sector_loop True careful_fatfs corrupt_dir_buf [0] 1 0
          (initial_parse_state (the (example_name_alloc 1024)) []) = Inr st"
    and c: "is_corrupt_dir st"
    and h: "map (\<lambda>c. fst (snd c)) (classified st) = replicate 4 True @ replicate 12 False"
    and t: "map fst (classified st) =
         replicate 5 EXFATFS_DIR_ENTRY_TYPE_NONE @
         [EXFATFS_DIR_ENTRY_TYPE_FILE_STREAM, EXFATFS_DIR_ENTRY_TYPE_FILE_NAME] @
         replicate 9 EXFATFS_DIR_ENTRY_TYPE_NONE"
    and f: "careful_is_dentry (corrupt_dir_buf ! 4) True = EXFATFS_DIR_ENTRY_TYPE_FILE"
    and n: "strlen (name (fs_name (name_info st))) = 0" "fs_dir (name_info st) = []"
    by (auto split: sum.splits)
  note r = corrupt_flag_iff_first_four_unclassifiable_and_sticky [OF st]
  from r c have a: "first_four_unclassifiable (classified st)" by blast
  from r have b: "list_all (hint_follows_flag (classified st)) [0..<length (classified st)]"
    by blast
  from r have e: "classified st =
      expected_classifier_calls careful_fatfs corrupt_dir_buf
        (entry_allocs careful_fatfs (take 1 [0])) []"
    by blast
  show ?thesis
    unfolding st sum.case by (intro conjI c a b e h t f n)
qed


section \<open>Entries of the other in-use variant\<close>

lemma in_use_variant_simps [simp]:
  "in_use_variant EXFATFS_DIR_ENTRY_TYPE_FILE"
  "\<not> in_use_variant EXFATFS_DIR_ENTRY_TYPE_DELETED_FILE"
  "in_use_variant EXFATFS_DIR_ENTRY_TYPE_FILE_STREAM"
  "\<not> in_use_variant EXFATFS_DIR_ENTRY_TYPE_DELETED_FILE_STREAM"
  "in_use_variant EXFATFS_DIR_ENTRY_TYPE_FILE_NAME"
  "\<not> in_use_variant EXFATFS_DIR_ENTRY_TYPE_DELETED_FILE_NAME"
  by (simp_all add: in_use_variant_def dentry_type_defs)

lemma stream_mismatch_finalizes:
  "stream_variant_mismatch (last_dentry_type ni) (entry_type d) \<Longrightarrow>
   exfats_parse_file_stream_dentry a_fatfs ni d inum = exfatfs_add_name_to_dir_and_reset_info ni"
  unfolding stream_variant_mismatch_def exfats_parse_file_stream_dentry_def
  by (elim conjE disjE) simp_all

lemma name_mismatch_finalizes:
  "name_variant_mismatch (last_dentry_type ni) (entry_type d) \<Longrightarrow>
   exfats_parse_file_name_dentry a_fatfs ni d inum = exfatfs_add_name_to_dir_and_reset_info ni"
  unfolding name_variant_mismatch_def exfats_parse_file_name_dentry_def
  by (elim conjE disjE) simp_all

lemma name_after_file_dentry [simp]:
  "strlen (name (fs_name (exfats_parse_file_dentry a_fatfs ni d inum))) = 0"
  by (simp add: exfats_parse_file_dentry_def Let_def)


lemma finalize_fields [simp]:
  "last_dentry_type (exfatfs_add_name_to_dir_and_reset_info ni) = EXFATFS_DIR_ENTRY_TYPE_NONE"
  "expected_secondary_entry_count (exfatfs_add_name_to_dir_and_reset_info ni) = 0"
  "actual_secondary_entry_count (exfatfs_add_name_to_dir_and_reset_info ni) = 0"
  "expected_name_length (exfatfs_add_name_to_dir_and_reset_info ni) = 0"
  "actual_name_length (exfatfs_add_name_to_dir_and_reset_info ni) = 0"
  "name_size (fs_name (exfatfs_add_name_to_dir_and_reset_info ni)) = name_size (fs_name ni)"
  "name (fs_name (exfatfs_add_name_to_dir_and_reset_info ni)) = (name (fs_name ni))[0 := CHR 0x00]"
  "meta_addr (fs_name (exfatfs_add_name_to_dir_and_reset_info ni)) = 0"
  "type (fs_name (exfatfs_add_name_to_dir_and_reset_info ni)) = TSK_FS_NAME_TYPE_UNDEF"
  "flags (fs_name (exfatfs_add_name_to_dir_and_reset_info ni)) = TSK_FS_NAME_FLAG_ALLOC"
  by (simp_all add: exfatfs_add_name_to_dir_and_reset_info_def exfatfs_reset_name_info_def)

lemma fs_dir_stream_after_file:
  "fs_dir (exfats_parse_file_stream_dentry a_fatfs
             (exfats_parse_file_dentry a_fatfs ni d0 inum0) d inum) =
   fs_dir (exfats_parse_file_dentry a_fatfs ni d0 inum0)"
proof -
  define ni1 where "ni1 = exfats_parse_file_dentry a_fatfs ni d0 inum0"
  have e: "strlen (name (fs_name ni1)) = 0" by (simp add: ni1_def)
  have "fs_dir (exfats_parse_file_stream_dentry a_fatfs ni1 d inum) = fs_dir ni1"
    using e by (simp add: exfats_parse_file_stream_dentry_def fs_dir_finalize Let_def
        exfatfs_update_file_entry_set_checksum_def)
  then show ?thesis by (simp add: ni1_def)
qed

text \<open>
  C2, as the source has it.  When a stream or name entry disagrees in its in-use variant
  with the entry before it, the parser finalizes the accumulator and goes on with the next
  entry: the pending name is handed to the sink if it is not empty, the accumulator is
  reset, and the entry itself contributes nothing.  No parse failure results (in a build
  with assertions, provided the handler's assertions on the name object and the inode
  address hold).  For a stream entry that directly follows the file entry the pending name
  is empty, so the sink stays as it was.
\<close>

theorem in_use_mismatch_finalizes_pending_name:
  assumes "stream_variant_mismatch (last_dentry_type (name_info st)) (entry_type d) \<or>
           name_variant_mismatch (last_dentry_type (name_info st)) (entry_type d)"
    and "ndebug \<or> (name_info_asserts a_fatfs (name_info st) \<and> fatfs_is_inum_in_range a_fatfs inum)"
  shows "dispatch_dentry ndebug a_fatfs (entry_type d) d inum st =
           Inr (st\<lparr>name_info := exfatfs_add_name_to_dir_and_reset_info (name_info st)\<rparr>)
         \<and> fs_dir (exfatfs_add_name_to_dir_and_reset_info (name_info st)) =
             (if 0 < strlen (name (fs_name (name_info st)))
              then tsk_fs_dir_add (fs_dir (name_info st)) (fs_name (name_info st))
              else fs_dir (name_info st))
         \<and> exfatfs_reset_name_info (exfatfs_add_name_to_dir_and_reset_info (name_info st)) =
             exfatfs_add_name_to_dir_and_reset_info (name_info st)
         \<and> fs_dir (exfats_parse_file_stream_dentry a_fatfs
                     (exfats_parse_file_dentry a_fatfs ni d0 inum0) d inum) =
             fs_dir (exfats_parse_file_dentry a_fatfs ni d0 inum0)"
proof -
  from assms(1) have "dispatch_dentry ndebug a_fatfs (entry_type d) d inum st =
           Inr (st\<lparr>name_info := exfatfs_add_name_to_dir_and_reset_info (name_info st)\<rparr>)"
  proof
    assume m: "stream_variant_mismatch (last_dentry_type (name_info st)) (entry_type d)"
    then have t: "entry_type d = EXFATFS_DIR_ENTRY_TYPE_FILE_STREAM \<or>
        entry_type d = EXFATFS_DIR_ENTRY_TYPE_DELETED_FILE_STREAM"
      by (simp add: stream_variant_mismatch_def)
    from assms(2) t show ?thesis
      by (auto simp add: dispatch_stream [OF t] stream_mismatch_finalizes [OF m] call_handler_def
          parse_file_stream_dentry_asserts_def)
  next
    assume m: "name_variant_mismatch (last_dentry_type (name_info st)) (entry_type d)"
    then have t: "entry_type d = EXFATFS_DIR_ENTRY_TYPE_FILE_NAME \<or>
        entry_type d = EXFATFS_DIR_ENTRY_TYPE_DELETED_FILE_NAME"
      by (simp add: name_variant_mismatch_def)
    from assms(2) t show ?thesis
      by (auto simp add: dispatch_name [OF t] name_mismatch_finalizes [OF m] call_handler_def
          parse_file_name_dentry_asserts_def)
  qed
  then show ?thesis
    by (simp add: fs_dir_finalize fs_dir_stream_after_file)
qed

theorem in_use_mismatch_example:
  "(stream_variant_mismatch (last_dentry_type (name_info example_open_set))
       (entry_type example_deleted_name_entry) \<or>
    name_variant_mismatch (last_dentry_type (name_info example_open_set))
       (entry_type example_deleted_name_entry))
   \<and> (False \<or> (name_info_asserts (example_fatfs 1000) (name_info example_open_set) \<and>
                 fatfs_is_inum_in_range (example_fatfs 1000) 6))
   \<and> dispatch_dentry False (example_fatfs 1000) (entry_type example_deleted_name_entry)
        example_deleted_name_entry 6 example_open_set =
        Inr (example_open_set
              \<lparr>name_info := exfatfs_add_name_to_dir_and_reset_info (name_info example_open_set)\<rparr>)
   \<and> fs_dir (exfatfs_add_name_to_dir_and_reset_info (name_info example_open_set)) =
        [\<lparr>nr_name = ''AB'', nr_meta_addr = 3, nr_type = TSK_FS_NAME_TYPE_REG,
          nr_flags = TSK_FS_NAME_FLAG_ALLOC\<rparr>]"
proof -
  have h1: "name_variant_mismatch (last_dentry_type (name_info example_open_set))
       (entry_type example_deleted_name_entry)"
    by code_simp
  have h2: "name_info_asserts (example_fatfs 1000) (name_info example_open_set) \<and>
                 fatfs_is_inum_in_range (example_fatfs 1000) 6"
    by code_simp
  have h3: "fs_dir (exfatfs_add_name_to_dir_and_reset_info (name_info example_open_set)) =
        [\<lparr>nr_name = ''AB'', nr_meta_addr = 3, nr_type = TSK_FS_NAME_TYPE_REG,
          nr_flags = TSK_FS_NAME_FLAG_ALLOC\<rparr>]"
    by code_simp
  note t = in_use_mismatch_finalizes_pending_name [of example_open_set example_deleted_name_entry
      False "example_fatfs 1000" 6, OF disjI2 [OF h1] disjI2 [OF h2]]
  from t h1 h2 h3 show ?thesis by blast
qed

text \<open>
  C2, as stated, fails: "zero name records are emitted for that set".  The set
  of the examples, followed by a deleted name entry and unclassifiable entries, yields one
  record, with the part of the name assembled so far; the handler call for the deleted
  name entry is the one that hands it to the sink.
\<close>

theorem name_mismatch_emits_pending_name:
  "exfatfs_dent_parse_buf True (Some (example_fatfs 1000)) (Some [])
     (Some ([example_file_entry, example_stream_entry, example_name_entry,
             example_deleted_name_entry] @ replicate 12 (dentry_of [])))
     512 (Some [0]) =
     Returned TSK_OK None
       [\<lparr>nr_name = ''AB'', nr_meta_addr = 3, nr_type = TSK_FS_NAME_TYPE_REG,
         nr_flags = TSK_FS_NAME_FLAG_ALLOC\<rparr>]
   \<and> fs_dir (name_info example_open_set) = []
   \<and> fs_dir (exfats_parse_file_name_dentry (example_fatfs 1000) (name_info example_open_set)
               example_deleted_name_entry 6) =
       [\<lparr>nr_name = ''AB'', nr_meta_addr = 3, nr_type = TSK_FS_NAME_TYPE_REG,
         nr_flags = TSK_FS_NAME_FLAG_ALLOC\<rparr>]"
  by code_simp

section \<open>The volume label handler\<close>

lemma vol_label_handler_record:
  "fs_dir (exfats_parse_vol_label_dentry a_fatfs ni d inum) =
     fs_dir (exfatfs_add_name_to_dir_and_reset_info ni) @
       (if entry_type d = EXFATFS_DIR_ENTRY_TYPE_VOLUME_LABEL_EMPTY then []
        else
          (case fatfs_utf16_inode_str_2_utf8 a_fatfs (volume_label d)
                  (unat (utf16_char_count d) + 1) ((name (fs_name ni))[0 := CHR 0x00])
                  (name_size (fs_name ni)) inum of
             (res, buf) \<Rightarrow>
               if res \<noteq> TSKconversionOK then []
               else
                 (let cut = buf[unat (utf16_char_count d) := CHR 0x00];
                      nm = (if unat (utf16_char_count d) + length vol_label_tag
                                 < EXFATFS_MAX_NAME_LEN_UTF8 a_fatfs
                            then strcat cut vol_label_tag else cut)
                  in if 0 < strlen nm
                     then [\<lparr>nr_name = c_str nm, nr_meta_addr = inum,
                            nr_type = TSK_FS_NAME_TYPE_UNDEF, nr_flags = TSK_FS_NAME_FLAG_ALLOC\<rparr>]
                     else [])))
   \<and> (if entry_type d = EXFATFS_DIR_ENTRY_TYPE_VOLUME_LABEL_EMPTY
      then exfats_parse_vol_label_dentry a_fatfs ni d inum =
             (exfatfs_add_name_to_dir_and_reset_info ni)
               \<lparr>last_dentry_type := EXFATFS_DIR_ENTRY_TYPE_VOLUME_LABEL_EMPTY\<rparr>
      else exfatfs_reset_name_info (exfats_parse_vol_label_dentry a_fatfs ni d inum) =
             exfats_parse_vol_label_dentry a_fatfs ni d inum)"
  by (simp add: exfats_parse_vol_label_dentry_def Let_def fs_dir_finalize tsk_fs_dir_add_def
      split: prod.splits)

lemma full_label_last_entry:
  "exfatfs_dent_parse_buf True (Some (example_fatfs 1000)) (Some [])
     (Some (replicate 15 (dentry_of []) @ [full_label_entry])) 512 (Some [0]) =
     Undefined_Behaviour"
  by code_simp

lemma full_label_last_entry_debug:
  "exfatfs_dent_parse_buf False (Some (example_fatfs 1000)) (Some [])
     (Some (replicate 15 (dentry_of []) @ [full_label_entry])) 512 (Some [0]) =
     Undefined_Behaviour"
  by code_simp

lemma long_label_first_entry:
  "exfatfs_dent_parse_buf True (Some (example_fatfs 1000)) (Some [])
     (Some (long_label_entry # replicate 15 (dentry_of []))) 512 (Some [0]) =
     Undefined_Behaviour"
  by code_simp

lemma full_label_first_entry:
  "exfatfs_dent_parse_buf True (Some (example_fatfs 1000)) (Some [])
     (Some (full_label_entry # replicate 15 (dentry_of []))) 512 (Some [0]) =
     Returned TSK_OK None
       [\<lparr>nr_name = ''ABCDEFGHIJKLMNO (Volume Label Entry)'', nr_meta_addr = 3,
         nr_type = TSK_FS_NAME_TYPE_UNDEF, nr_flags = TSK_FS_NAME_FLAG_ALLOC\<rparr>]"
  by code_simp

lemma full_label_fills_its_entry:
  "length full_label_entry = 32 \<and> length (volume_label full_label_entry) = 30 \<and>
   unat (utf16_char_count full_label_entry) = 15 \<and>
   \<not> vol_label_source_in_buffer full_label_entry \<and>
   vol_label_source_in_buffer (full_label_entry @ dentry_of [])"
  by code_simp

text \<open>
  C6.  The specification has the handler decode exactly the declared character count,
  capped at the limit of a label.  The source asks the decoder for the declared count plus one
  code units, from the label on, and has no cap (lines 435 to 438); the name handler, its
  sibling, clips its request to the code units of an entry and asks for exactly that many.

  The first two conjuncts give the handler as the source has it, for every entry: the
  request to the decoder (the label pointer and the count plus one), no record and a reset
  accumulator when the decoder fails, and otherwise the name cut at the declared count, the
  tag appended if the count plus its length is below the capacity, the record with the
  entry's inode address handed to the sink at once if the name is not empty; an entry of
  the empty variant hands nothing to the sink.

  The others evaluate the parser at entries that declare 15 and 255 characters.  A label
  of 15 characters fills its entry: the 16 code units the handler asks for end two bytes
  behind the entry.  As the last entry of the buffer the request runs over the end of the
  buffer, with or without assertions; so does a declared count of 255 in the first entry
  of a sector of 512 bytes.  As the first entry of the sector the request takes the first
  two bytes of the entry that follows as the 16th code unit; followed by zeros, the label
  is recorded.
\<close>

theorem vol_label_request_is_count_plus_one_uncapped:
  "fs_dir (exfats_parse_vol_label_dentry a_fatfs ni d inum) =
     fs_dir (exfatfs_add_name_to_dir_and_reset_info ni) @
       (if entry_type d = EXFATFS_DIR_ENTRY_TYPE_VOLUME_LABEL_EMPTY then []
        else
          (case fatfs_utf16_inode_str_2_utf8 a_fatfs (volume_label d)
                  (unat (utf16_char_count d) + 1) ((name (fs_name ni))[0 := CHR 0x00])
                  (name_size (fs_name ni)) inum of
             (res, buf) \<Rightarrow>
               if res \<noteq> TSKconversionOK then []
               else
                 (let cut = buf[unat (utf16_char_count d) := CHR 0x00];
                      nm = (if unat (utf16_char_count d) + length vol_label_tag
                                 < EXFATFS_MAX_NAME_LEN_UTF8 a_fatfs
                            then strcat cut vol_label_tag else cut)
                  in if 0 < strlen nm
                     then [\<lparr>nr_name = c_str nm, nr_meta_addr = inum,
                            nr_type = TSK_FS_NAME_TYPE_UNDEF, nr_flags = TSK_FS_NAME_FLAG_ALLOC\<rparr>]
                     else [])))
   \<and> (if entry_type d = EXFATFS_DIR_ENTRY_TYPE_VOLUME_LABEL_EMPTY
      then exfats_parse_vol_label_dentry a_fatfs ni d inum =
             (exfatfs_add_name_to_dir_and_reset_info ni)
               \<lparr>last_dentry_type := EXFATFS_DIR_ENTRY_TYPE_VOLUME_LABEL_EMPTY\<rparr>
      else exfatfs_reset_name_info (exfats_parse_vol_label_dentry a_fatfs ni d inum) =
             exfats_parse_vol_label_dentry a_fatfs ni d inum)
   \<and> (length full_label_entry = 32 \<and> length (volume_label full_label_entry) = 30 \<and>
      unat (utf16_char_count full_label_entry) = 15 \<and>
      \<not> vol_label_source_in_buffer full_label_entry \<and>
      vol_label_source_in_buffer (full_label_entry @ dentry_of []))
   \<and> exfatfs_dent_parse_buf True (Some (example_fatfs 1000)) (Some [])
       (Some (replicate 15 (dentry_of []) @ [full_label_entry])) 512 (Some [0]) =
       Undefined_Behaviour
   \<and> exfatfs_dent_parse_buf False (Some (example_fatfs 1000)) (Some [])
       (Some (replicate 15 (dentry_of []) @ [full_label_entry])) 512 (Some [0]) =
       Undefined_Behaviour
   \<and> exfatfs_dent_parse_buf True (Some (example_fatfs 1000)) (Some [])
       (Some (long_label_entry # replicate 15 (dentry_of []))) 512 (Some [0]) =
       Undefined_Behaviour
   \<and> exfatfs_dent_parse_buf True (Some (example_fatfs 1000)) (Some [])
       (Some (full_label_entry # replicate 15 (dentry_of []))) 512 (Some [0]) =
       Returned TSK_OK None
         [\<lparr>nr_name = ''ABCDEFGHIJKLMNO (Volume Label Entry)'', nr_meta_addr = 3,
           nr_type = TSK_FS_NAME_TYPE_UNDEF, nr_flags = TSK_FS_NAME_FLAG_ALLOC\<rparr>]"
  by (intro conjI conjunct1 [OF vol_label_handler_record]
      conjunct2 [OF vol_label_handler_record] full_label_fills_its_entry
      full_label_last_entry full_label_last_entry_debug long_label_first_entry
      full_label_first_entry)


section \<open>Finalization by the count of secondary entries\<close>

lemma secondary_types_distinct [simp]:
  "EXFATFS_DIR_ENTRY_TYPE_FILE_STREAM \<noteq> EXFATFS_DIR_ENTRY_TYPE_DELETED_FILE_STREAM"
  "EXFATFS_DIR_ENTRY_TYPE_FILE_STREAM \<noteq> EXFATFS_DIR_ENTRY_TYPE_FILE_NAME"
  "EXFATFS_DIR_ENTRY_TYPE_FILE_STREAM \<noteq> EXFATFS_DIR_ENTRY_TYPE_DELETED_FILE_NAME"
  "EXFATFS_DIR_ENTRY_TYPE_DELETED_FILE_STREAM \<noteq> EXFATFS_DIR_ENTRY_TYPE_FILE_STREAM"
  "EXFATFS_DIR_ENTRY_TYPE_DELETED_FILE_STREAM \<noteq> EXFATFS_DIR_ENTRY_TYPE_FILE_NAME"
  "EXFATFS_DIR_ENTRY_TYPE_DELETED_FILE_STREAM \<noteq> EXFATFS_DIR_ENTRY_TYPE_DELETED_FILE_NAME"
  "EXFATFS_DIR_ENTRY_TYPE_FILE_NAME \<noteq> EXFATFS_DIR_ENTRY_TYPE_FILE_STREAM"
  "EXFATFS_DIR_ENTRY_TYPE_FILE_NAME \<noteq> EXFATFS_DIR_ENTRY_TYPE_DELETED_FILE_STREAM"
  "EXFATFS_DIR_ENTRY_TYPE_FILE_NAME \<noteq> EXFATFS_DIR_ENTRY_TYPE_DELETED_FILE_NAME"
  "EXFATFS_DIR_ENTRY_TYPE_DELETED_FILE_NAME \<noteq> EXFATFS_DIR_ENTRY_TYPE_FILE_STREAM"
  "EXFATFS_DIR_ENTRY_TYPE_DELETED_FILE_NAME \<noteq> EXFATFS_DIR_ENTRY_TYPE_DELETED_FILE_STREAM"
  "EXFATFS_DIR_ENTRY_TYPE_DELETED_FILE_NAME \<noteq> EXFATFS_DIR_ENTRY_TYPE_FILE_NAME"
  "EXFATFS_DIR_ENTRY_TYPE_FILE \<noteq> EXFATFS_DIR_ENTRY_TYPE_DELETED_FILE"
  "EXFATFS_DIR_ENTRY_TYPE_DELETED_FILE \<noteq> EXFATFS_DIR_ENTRY_TYPE_FILE"
  "EXFATFS_DIR_ENTRY_TYPE_NONE \<noteq> EXFATFS_DIR_ENTRY_TYPE_FILE"
  "EXFATFS_DIR_ENTRY_TYPE_NONE \<noteq> EXFATFS_DIR_ENTRY_TYPE_DELETED_FILE"
  "EXFATFS_DIR_ENTRY_TYPE_NONE \<noteq> EXFATFS_DIR_ENTRY_TYPE_FILE_STREAM"
  "EXFATFS_DIR_ENTRY_TYPE_NONE \<noteq> EXFATFS_DIR_ENTRY_TYPE_DELETED_FILE_STREAM"
  "EXFATFS_DIR_ENTRY_TYPE_NONE \<noteq> EXFATFS_DIR_ENTRY_TYPE_FILE_NAME"
  "EXFATFS_DIR_ENTRY_TYPE_NONE \<noteq> EXFATFS_DIR_ENTRY_TYPE_DELETED_FILE_NAME"
  by (simp_all add: dentry_type_defs)


















subsection \<open>The observed count wraps around\<close>

text \<open>
  The fields the handlers read of an entry of that directory, and its classification, are
  those of the entry whatever follows it in the buffer.
\<close>

lemma wrap_entry_fields [simp]:
  "entry_type (wrap_file_entry @ r) = EXFATFS_DIR_ENTRY_TYPE_FILE"
  "secondary_entries_count (wrap_file_entry @ r) = 0"
  "entry_type (wrap_stream_entry @ r) = EXFATFS_DIR_ENTRY_TYPE_FILE_STREAM"
  "file_name_length (wrap_stream_entry @ r) = 0"
  "entry_type (wrap_name_entry @ r) = EXFATFS_DIR_ENTRY_TYPE_FILE_NAME"
  by (simp_all add: wrap_file_entry_def wrap_stream_entry_def wrap_name_entry_def dentry_of_def
      entry_type_def secondary_entries_count_def file_name_length_def dentry_type_defs
      nth_append)

lemma wrap_entry_classified [simp]:
  "example_is_dentry (wrap_file_entry @ r) h = EXFATFS_DIR_ENTRY_TYPE_FILE"
  "example_is_dentry (wrap_stream_entry @ r) h = EXFATFS_DIR_ENTRY_TYPE_FILE_STREAM"
  "example_is_dentry (wrap_name_entry @ r) h = EXFATFS_DIR_ENTRY_TYPE_FILE_NAME"
  by (simp_all add: example_is_dentry_def wrap_file_entry_def wrap_stream_entry_def
      wrap_name_entry_def dentry_of_def dentry_type_defs)

lemma example_fatfs_fields [simp]:
  "dentry_cnt_se (example_fatfs l) = 16"
  "last_inum (example_fatfs l) = l"
  "FATFS_SECT_2_INODE (example_fatfs l) s = s * 16 + 3"
  "fatfs_is_inum_in_range (example_fatfs l) i = (2 \<le> i \<and> i \<le> l)"
  "fatfs_is_sectalloc (example_fatfs l) s = 1"
  "exfatfs_is_dentry (example_fatfs l) = example_is_dentry"
  "fatfs_utf16_inode_str_2_utf8 (example_fatfs l) = example_utf16_2_utf8"
  by (simp_all add: example_fatfs_def)






















lemma run_open_alloc [simp]:
  "run_open (st\<lparr>name_info := (name_info st)\<lparr>sector_is_allocated := x\<rparr>\<rparr>) k = run_open st k"
  by (simp add: run_open_def name_run_def)














end
